theory Spec2Isabelle
  imports
    Main
    "HOL-Library.Word"
    "HOL-Library.Finite_Map"
    "HOL-Library.Char_ord"
    "HOL-Library.List_Lexorder"
begin

section \<open>The instance-information client of go-mastodon (instance.go)\<close>

text \<open>
  The development embeds \<^verbatim>\<open>instance.go\<close>: the records it declares, the four request
  methods \<^verbatim>\<open>GetInstance\<close>, \<^verbatim>\<open>GetInstanceV2\<close>, \<^verbatim>\<open>GetInstanceActivity\<close>,
  \<^verbatim>\<open>GetInstancePeers\<close> and the accessor \<^verbatim>\<open>GetConfig\<close>.

  Three things the file uses are declared elsewhere: the method \<^verbatim>\<open>doAPI\<close> of the client,
  the type \<^verbatim>\<open>Unixtime\<close> and the type \<^verbatim>\<open>Account\<close>. The four methods take \<^verbatim>\<open>doAPI\<close> as a
  parameter, so that what is proved of them holds for every API caller; \<^verbatim>\<open>Account\<close> is a
  type parameter \<open>'a\<close>; \<^verbatim>\<open>Unixtime\<close> and one API caller are modelled from the specification
  and marked as such. The dynamic values behind Go's \<^verbatim>\<open>interface{}\<close> are a type parameter
  \<open>'v\<close> (generic decoding turns JSON numbers into floating-point values).

  What the struct tags of instance.go mean is fixed by Go's package \<^verbatim>\<open>encoding/json\<close>;
  the decoders and encoders below follow that package for the types instance.go declares.
\<close>

subsection \<open>JSON values and errors\<close>

text \<open>
  A response body is taken after lexical analysis: a JSON value. A number keeps the text of
  its literal, since Go converts it according to the type of the destination.
  The members of an object are a list: order and duplicates are visible to the decoder.
\<close>

datatype json =
    JNull
  | JBool bool
  | JNumber string
  | JString string
  | JArray "json list"
  | JObject "(string \<times> json) list"

text \<open>The error taxonomy of the specification (section 7).\<close>

datatype error = TransportError | StatusError nat | DecodeError

subsection \<open>Go types\<close>

text \<open>
  \<^verbatim>\<open>int64\<close> is a 64-bit word read as a signed number; Go's \<^verbatim>\<open>int\<close> is taken at its
  64-bit width. A pointer is an option (\<open>None\<close> is \<^verbatim>\<open>nil\<close>), and so are a slice, a map and
  an \<^verbatim>\<open>interface{}\<close>, which all have a \<^verbatim>\<open>nil\<close> value different from the empty one.
\<close>

type_synonym int64 = "64 word"
type_synonym go_int = "64 word"
type_synonym 'a ptr = "'a option"
type_synonym 'a slice = "'a list option"
type_synonym ('k, 'v) go_map = "('k, 'v) fmap option"
type_synonym 'v iface = "'v option"

definition len :: "'a slice \<Rightarrow> nat" where
  "len s = (case s of None \<Rightarrow> 0 | Some xs \<Rightarrow> length xs)"

text \<open>Indexing a slice, \<^verbatim>\<open>s[i]\<close>, panics at an index that is not below the length.\<close>

datatype panic = NilDereference | IndexOutOfRange

definition index :: "'a slice \<Rightarrow> nat \<Rightarrow> panic + 'a" where
  "index s i =
     (case s of
        None \<Rightarrow> Inl IndexOutOfRange
      | Some xs \<Rightarrow> if i < length xs then Inr (xs ! i) else Inl IndexOutOfRange)"

subsection \<open>The records of instance.go\<close>

record InstanceStats =
  UserCount :: int64
  StatusCount :: int64
  DomainCount :: int64

type_synonym 'v InstanceConfigMap = "(string, 'v iface) go_map"

record 'v InstanceConfig =
  Accounts :: "'v InstanceConfigMap ptr"
  Statuses :: "'v InstanceConfigMap ptr"
  MediaAttachments :: "(string, 'v iface) go_map"
  Polls :: "'v InstanceConfigMap ptr"

record ('a, 'v) Instance =
  URI :: string
  Title :: string
  Description :: string
  EMail :: string
  Version :: string
  Thumbnail :: string
  URLs :: "(string, string) go_map"
  Stats :: "InstanceStats ptr"
  Languages :: "string slice"
  ContactAccount :: "'a ptr"
  Configuration :: "'v InstanceConfig ptr"

text \<open>The anonymous structs nested in \<^verbatim>\<open>InstanceV2\<close> are named after their path.\<close>

record V2_Usage_Users =
  ActiveMonth :: go_int

record V2_Usage =
  Users :: V2_Usage_Users

record 'v V2_Thumbnail_Versions =
  One_X :: "'v iface"
  Two_X :: "'v iface"

record 'v V2_Thumbnail =
  URL :: string
  Blurhash :: "'v iface"
  Versions :: "'v V2_Thumbnail_Versions"

record V2_Configuration_Urls =
  Streaming :: string

record V2_Configuration_Accounts =
  MaxFeaturedTags :: go_int

record V2_Configuration_Statuses =
  MaxCharacters :: go_int
  MaxMediaAttachments :: go_int
  CharactersReservedPerURL :: go_int

record V2_Configuration_MediaAttachments =
  SupportedMimeTypes :: "string slice"
  ImageSizeLimit :: go_int
  ImageMatrixLimit :: go_int
  VideoSizeLimit :: go_int
  VideoFrameRateLimit :: go_int
  VideoMatrixLimit :: go_int

record V2_Configuration_Polls =
  MaxOptions :: go_int
  MaxCharactersPerOption :: go_int
  MinExpiration :: go_int
  MaxExpiration :: go_int

record V2_Configuration_Translation =
  Enabled :: bool

record V2_Configuration =
  Urls :: V2_Configuration_Urls
  Accounts :: V2_Configuration_Accounts
  Statuses :: V2_Configuration_Statuses
  MediaAttachments :: V2_Configuration_MediaAttachments
  Polls :: V2_Configuration_Polls
  Translation :: V2_Configuration_Translation

record 'v V2_Registrations =
  Enabled :: bool
  ApprovalRequired :: bool
  Message :: "'v iface"

record 'a V2_Contact =
  Email :: string
  Account :: "'a ptr"

record Rule =
  ID :: string
  Text :: string

record ('a, 'v) InstanceV2 =
  Domain :: string
  Title :: string
  Version :: string
  SourceURL :: string
  Description :: string
  Usage :: V2_Usage
  Thumbnail :: "'v V2_Thumbnail"
  Languages :: "string slice"
  Configuration :: V2_Configuration
  Registrations :: "'v V2_Registrations"
  Contact :: "'a V2_Contact"
  Rules :: "Rule slice"

text \<open>
  Modelled from the spec: the type \<^verbatim>\<open>Unixtime\<close> is declared outside instance.go. The
  specification calls the week of an activity record a point in time that the wire carries
  as Unix epoch seconds, and the test of instance.go compares it with
  \<^verbatim>\<open>time.Unix(1516579200, 0)\<close>: a value is the number of seconds since 1970-01-01T00:00:00Z.
\<close>

datatype Unixtime = Unix int

record WeeklyActivity =
  Week :: Unixtime
  Statuses :: int64
  Logins :: int64
  Registrations :: int64

subsection \<open>Zero values\<close>

text \<open>\<^verbatim>\<open>var instance Instance\<close> declares a record whose fields all hold their zero value.\<close>

definition Instance_zero :: "('a, 'v) Instance" where
  "Instance_zero =
     \<lparr>URI = [], Title = [], Description = [], EMail = [], Version = [], Thumbnail = [],
      URLs = None, Stats = None, Languages = None, ContactAccount = None,
      Configuration = None\<rparr>"

definition InstanceV2_zero :: "('a, 'v) InstanceV2" where
  "InstanceV2_zero =
     \<lparr>Domain = [], Title = [], Version = [], SourceURL = [], Description = [],
      Usage = \<lparr>Users = \<lparr>ActiveMonth = 0\<rparr>\<rparr>,
      Thumbnail = \<lparr>URL = [], Blurhash = None, Versions = \<lparr>One_X = None, Two_X = None\<rparr>\<rparr>,
      Languages = None,
      Configuration =
        \<lparr>Urls = \<lparr>Streaming = []\<rparr>,
         Accounts = \<lparr>MaxFeaturedTags = 0\<rparr>,
         Statuses = \<lparr>MaxCharacters = 0, MaxMediaAttachments = 0,
                     CharactersReservedPerURL = 0\<rparr>,
         MediaAttachments =
           \<lparr>SupportedMimeTypes = None, ImageSizeLimit = 0, ImageMatrixLimit = 0,
            VideoSizeLimit = 0, VideoFrameRateLimit = 0, VideoMatrixLimit = 0\<rparr>,
         Polls = \<lparr>MaxOptions = 0, MaxCharactersPerOption = 0, MinExpiration = 0,
                  MaxExpiration = 0\<rparr>,
         Translation = \<lparr>V2_Configuration_Translation.Enabled = False\<rparr>\<rparr>,
      Registrations = \<lparr>V2_Registrations.Enabled = False, ApprovalRequired = False,
                       Message = None\<rparr>,
      Contact = \<lparr>Email = [], Account = None\<rparr>,
      Rules = None\<rparr>"

subsection \<open>The four request methods and the accessor\<close>

text \<open>
  \<^verbatim>\<open>c.doAPI(ctx, method, uri, params, res, pg)\<close> takes the client, the context, the method,
  the path, the request parameters, the destination and the pagination; it writes the
  destination and returns an error or \<^verbatim>\<open>nil\<close>. Here it takes the destination's content and
  the state \<open>'w\<close> of everything outside the program, and returns the error, the
  destination's new content and the new state.
\<close>

type_synonym ('c, 'x, 'p, 'g, 'd, 'e, 'w) doAPI =
  "'c \<Rightarrow> 'x \<Rightarrow> string \<Rightarrow> string \<Rightarrow> 'p option \<Rightarrow> 'd \<Rightarrow> 'g option \<Rightarrow> 'w
     \<Rightarrow> ('e option \<times> 'd) \<times> 'w"

definition MethodGet :: string where
  "MethodGet = ''GET''"

definition GetInstance ::
  "('c, 'x, 'p, 'g, ('a, 'v) Instance, 'e, 'w) doAPI \<Rightarrow> 'c \<Rightarrow> 'x \<Rightarrow> 'w
     \<Rightarrow> (('a, 'v) Instance ptr \<times> 'e option) \<times> 'w" where
  "GetInstance doAPI c ctx w =
     (let instance = Instance_zero;
          ((err, instance'), w') = doAPI c ctx MethodGet ''/api/v1/instance'' None instance None w
      in if err \<noteq> None then ((None, err), w')
         else ((Some instance', None), w'))"

definition GetInstanceV2 ::
  "('c, 'x, 'p, 'g, ('a, 'v) InstanceV2, 'e, 'w) doAPI \<Rightarrow> 'c \<Rightarrow> 'x \<Rightarrow> 'w
     \<Rightarrow> (('a, 'v) InstanceV2 ptr \<times> 'e option) \<times> 'w" where
  "GetInstanceV2 doAPI c ctx w =
     (let instance = InstanceV2_zero;
          ((err, instance'), w') = doAPI c ctx MethodGet ''/api/v2/instance'' None instance None w
      in if err \<noteq> None then ((None, err), w')
         else ((Some instance', None), w'))"

text \<open>
  \<^verbatim>\<open>GetConfig\<close> has a pointer receiver; reading a field through a \<^verbatim>\<open>nil\<close> receiver
  panics.
\<close>

definition GetConfig :: "('a, 'v) Instance ptr \<Rightarrow> panic + 'v InstanceConfig ptr" where
  "GetConfig c = (case c of None \<Rightarrow> Inl NilDereference
                  | Some i \<Rightarrow> Inr (Instance.Configuration i))"

definition GetInstanceActivity ::
  "('c, 'x, 'p, 'g, WeeklyActivity ptr slice, 'e, 'w) doAPI \<Rightarrow> 'c \<Rightarrow> 'x \<Rightarrow> 'w
     \<Rightarrow> (WeeklyActivity ptr slice \<times> 'e option) \<times> 'w" where
  "GetInstanceActivity doAPI c ctx w =
     (let activity = None;
          ((err, activity'), w') =
             doAPI c ctx MethodGet ''/api/v1/instance/activity'' None activity None w
      in if err \<noteq> None then ((None, err), w')
         else ((activity', None), w'))"

definition GetInstancePeers ::
  "('c, 'x, 'p, 'g, string slice, 'e, 'w) doAPI \<Rightarrow> 'c \<Rightarrow> 'x \<Rightarrow> 'w
     \<Rightarrow> (string slice \<times> 'e option) \<times> 'w" where
  "GetInstancePeers doAPI c ctx w =
     (let peers = None;
          ((err, peers'), w') =
             doAPI c ctx MethodGet ''/api/v1/instance/peers'' None peers None w
      in if err \<noteq> None then ((None, err), w')
         else ((peers', None), w'))"

subsection \<open>Observing the calls of the API caller\<close>

text \<open>
  To count the calls a method makes, the API caller is wrapped: the wrapped caller behaves
  as the given one and appends the method, path, parameters and pagination of every call to
  a log kept beside the outside state.
\<close>

type_synonym ('p, 'g) call = "string \<times> string \<times> 'p option \<times> 'g option"

definition recording ::
  "('c, 'x, 'p, 'g, 'd, 'e, 'w) doAPI
     \<Rightarrow> ('c, 'x, 'p, 'g, 'd, 'e, 'w \<times> ('p, 'g) call list) doAPI" where
  "recording doAPI c ctx method uri params res pg wl =
     (let (r, w') = doAPI c ctx method uri params res pg (fst wl)
      in (r, (w', snd wl @ [(method, uri, params, pg)])))"

section \<open>Decoding responses\<close>

text \<open>
  The tags of the records above are instructions to \<^verbatim>\<open>encoding/json\<close>, the package of
  Go's standard library that the API caller decodes with. This section writes out what its
  \<^verbatim>\<open>Unmarshal\<close> does for the types instance.go declares, after the package's documentation
  and its decoder. A decoder takes the JSON value and the destination's content and returns
  the new content or an error.

  Two things are left out. \<^verbatim>\<open>Unmarshal\<close> goes on after some errors and reports the first
  one at the end; every method above drops the destination when an error is reported, so a
  decoder here stops at the first error. And a slice is its elements only: what the array
  behind it holds past its length is not kept, which could show only when an object has
  the key of a slice three times.
\<close>

type_synonym 'd decoder = "json \<Rightarrow> 'd \<Rightarrow> error + 'd"

definition store :: "error + 'x \<Rightarrow> ('x \<Rightarrow> 'r) \<Rightarrow> error + 'r" where
  "store res upd = (case res of Inl e \<Rightarrow> Inl e | Inr x \<Rightarrow> Inr (upd x))"

subsection \<open>Integers in decimal\<close>

definition is_digit :: "char \<Rightarrow> bool" where
  "is_digit c = (CHR ''0'' \<le> c \<and> c \<le> CHR ''9'')"

definition digit_val :: "char \<Rightarrow> nat" where
  "digit_val c = of_char c - of_char CHR ''0''"

definition parse_digits :: "string \<Rightarrow> nat option" where
  "parse_digits ds =
     (if ds \<noteq> [] \<and> list_all is_digit ds
      then Some (foldl (\<lambda>n c. 10 * n + digit_val c) 0 ds) else None)"

text \<open>
  \<^verbatim>\<open>strconv.ParseInt(s, 10, 64)\<close>: an optional sign, plus or minus, at least one decimal
  digit and nothing else, and a value that fits 64 signed bits.
\<close>

definition ParseInt :: "string \<Rightarrow> int option" where
  "ParseInt s =
     (case s of
        [] \<Rightarrow> None
      | c # cs \<Rightarrow>
          (let neg = (c = CHR ''-'');
               ds = (if c = CHR ''-'' \<or> c = CHR ''+'' then cs else s)
           in case parse_digits ds of
                None \<Rightarrow> None
              | Some n \<Rightarrow>
                  if neg then (if n \<le> 2 ^ 63 then Some (- int n) else None)
                  else (if n < 2 ^ 63 then Some (int n) else None)))"


subsection \<open>Scalars, pointers, slices, maps\<close>

text \<open>
  JSON \<^verbatim>\<open>null\<close> leaves a string, a number or a boolean as it is and sets a pointer, a
  slice, a map or an interface to \<^verbatim>\<open>nil\<close>. A value of another JSON kind than the
  destination accepts is an error. An integer field takes a number whose literal
  \<^verbatim>\<open>ParseInt\<close> accepts: a literal with a fraction or an exponent is an error. (The
  literal of a JSON number never starts with a plus sign.)
\<close>

definition dec_string :: "string decoder" where
  "dec_string j old =
     (case j of JString s \<Rightarrow> Inr s | JNull \<Rightarrow> Inr old | _ \<Rightarrow> Inl DecodeError)"

definition dec_bool :: "bool decoder" where
  "dec_bool j old =
     (case j of JBool b \<Rightarrow> Inr b | JNull \<Rightarrow> Inr old | _ \<Rightarrow> Inl DecodeError)"

definition dec_int :: "64 word decoder" where
  "dec_int j old =
     (case j of
        JNumber lit \<Rightarrow>
          (case ParseInt lit of Some n \<Rightarrow> Inr (word_of_int n) | None \<Rightarrow> Inl DecodeError)
      | JNull \<Rightarrow> Inr old
      | _ \<Rightarrow> Inl DecodeError)"

text \<open>
  The counters of an activity record are tagged \<^verbatim>\<open>,string\<close>. Such a field takes a JSON
  string and decodes the text inside the quotes: the text \<^verbatim>\<open>null\<close> is the literal
  null, which leaves a number as it is (the package's own tests decode
  \<^verbatim>\<open>{"B": "null"}\<close> into a field tagged \<^verbatim>\<open>,string\<close> without an error), and every
  other text has to pass \<^verbatim>\<open>ParseInt\<close>, which takes a sign, plus or minus, before the
  digits: the text \<^verbatim>\<open>+1\<close> is stored as 1. The empty text, a text that is a boolean or
  a quoted string, and every text \<^verbatim>\<open>ParseInt\<close> refuses are errors. A JSON value
  that is neither a string nor \<^verbatim>\<open>null\<close> is an error.
\<close>

definition dec_int_quoted :: "64 word decoder" where
  "dec_int_quoted j old =
     (case j of
        JNull \<Rightarrow> Inr old
      | JString item \<Rightarrow>
          if item = ''null'' then Inr old
          else (case ParseInt item of
                  Some n \<Rightarrow> Inr (word_of_int n)
                | None \<Rightarrow> Inl DecodeError)
      | _ \<Rightarrow> Inl DecodeError)"

text \<open>A pointer: \<^verbatim>\<open>null\<close> sets it to \<^verbatim>\<open>nil\<close>; another value is decoded into what it
  points to, allocated at its zero value if the pointer is \<^verbatim>\<open>nil\<close>.\<close>

definition dec_ptr :: "'d decoder \<Rightarrow> 'd \<Rightarrow> 'd ptr decoder" where
  "dec_ptr dec zero j old =
     (case j of
        JNull \<Rightarrow> Inr None
      | _ \<Rightarrow> store (dec j (case old of None \<Rightarrow> zero | Some x \<Rightarrow> x)) Some)"

text \<open>A slice: \<^verbatim>\<open>null\<close> sets it to \<^verbatim>\<open>nil\<close>. The elements of an array are decoded
  in the order of the array, the element at an index the slice already has into the
  element that is there, the others into a zero value; the slice ends with the array, and
  the empty array gives an empty slice that is not \<^verbatim>\<open>nil\<close>. The third argument of
  \<^verbatim>\<open>dec_elems\<close> is what is left of the old elements.\<close>

fun dec_elems :: "'d decoder \<Rightarrow> 'd \<Rightarrow> 'd list \<Rightarrow> json list \<Rightarrow> error + 'd list" where
  "dec_elems dec zero old [] = Inr []"
| "dec_elems dec zero old (j # js) =
     (case dec j (case old of [] \<Rightarrow> zero | x # _ \<Rightarrow> x) of
        Inl e \<Rightarrow> Inl e
      | Inr x \<Rightarrow> store (dec_elems dec zero (tl old) js) (\<lambda>xs. x # xs))"

definition dec_slice :: "'d decoder \<Rightarrow> 'd \<Rightarrow> 'd slice decoder" where
  "dec_slice dec zero j old =
     (case j of
        JNull \<Rightarrow> Inr None
      | JArray js \<Rightarrow>
          store (dec_elems dec zero (case old of None \<Rightarrow> [] | Some xs \<Rightarrow> xs) js) Some
      | _ \<Rightarrow> Inl DecodeError)"

text \<open>A map with string keys: a \<^verbatim>\<open>nil\<close> map is allocated, and every member of the
  object is stored under its key, a later one replacing an earlier one.\<close>

fun dec_entries ::
  "'d decoder \<Rightarrow> 'd \<Rightarrow> (string \<times> json) list \<Rightarrow> (string, 'd) fmap \<Rightarrow> error + (string, 'd) fmap"
where
  "dec_entries dec zero [] m = Inr m"
| "dec_entries dec zero ((k, v) # ms) m =
     (case dec v zero of
        Inl e \<Rightarrow> Inl e
      | Inr x \<Rightarrow> dec_entries dec zero ms (fmupd k x m))"

definition dec_map :: "'d decoder \<Rightarrow> 'd \<Rightarrow> (string, 'd) go_map decoder" where
  "dec_map dec zero j old =
     (case j of
        JNull \<Rightarrow> Inr None
      | JObject ms \<Rightarrow>
          store (dec_entries dec zero ms (case old of None \<Rightarrow> fmempty | Some m \<Rightarrow> m)) Some
      | _ \<Rightarrow> Inl DecodeError)"

text \<open>An \<^verbatim>\<open>interface{}\<close>: \<^verbatim>\<open>null\<close> gives \<^verbatim>\<open>nil\<close>, any other value is decoded
  generically and replaces the content.\<close>

definition dec_iface :: "(json \<Rightarrow> error + 'v) \<Rightarrow> 'v iface decoder" where
  "dec_iface dec_any j old =
     (case j of JNull \<Rightarrow> Inr None | _ \<Rightarrow> store (dec_any j) Some)"

subsection \<open>Structs\<close>

text \<open>
  A key selects the field whose name (its tag, or the Go identifier when it has no tag) is
  equal to it, or else equal to it up to case. Case folding is Unicode simple folding: on
  names made of ASCII characters it identifies upper and lower case, the Kelvin sign
  (bytes E2 84 AA) with k and the long s (bytes C5 BF) with s. No two fields of a record
  of instance.go have names equal up to case, so a key selects at most one field.
  A key that selects no field is skipped. The members are decoded in the order of the
  object, each into the current content of its field.
\<close>

text \<open>An ASCII capital becomes the small letter: the code of the character plus 32, which
  sets the bit of weight 32.\<close>

fun lower :: "char \<Rightarrow> char" where
  "lower (Char b0 b1 b2 b3 b4 b5 b6 b7) =
     (if CHR ''A'' \<le> Char b0 b1 b2 b3 b4 b5 b6 b7 \<and> Char b0 b1 b2 b3 b4 b5 b6 b7 \<le> CHR ''Z''
      then Char b0 b1 b2 b3 b4 True b6 b7
      else Char b0 b1 b2 b3 b4 b5 b6 b7)"

fun fold_name :: "string \<Rightarrow> string" where
  "fold_name (a # b # c # cs) =
     (if a = CHR 0xE2 \<and> b = CHR 0x84 \<and> c = CHR 0xAA then CHR ''k'' # fold_name cs
      else if a = CHR 0xC5 \<and> b = CHR 0xBF then CHR ''s'' # fold_name (c # cs)
      else lower a # fold_name (b # c # cs))"
| "fold_name [a, b] =
     (if a = CHR 0xC5 \<and> b = CHR 0xBF then ''s'' else [lower a, lower b])"
| "fold_name [a] = [lower a]"
| "fold_name [] = []"

definition names :: "string \<Rightarrow> string \<Rightarrow> bool" where
  "names key field \<longleftrightarrow> fold_name key = fold_name field"

fun dec_members ::
  "(string \<Rightarrow> json \<Rightarrow> 'r \<Rightarrow> error + 'r) \<Rightarrow> (string \<times> json) list \<Rightarrow> 'r \<Rightarrow> error + 'r" where
  "dec_members field [] r = Inr r"
| "dec_members field ((k, v) # ms) r =
     (case field k v r of
        Inl e \<Rightarrow> Inl e
      | Inr r' \<Rightarrow> dec_members field ms r')"

definition dec_struct :: "(string \<Rightarrow> json \<Rightarrow> 'r \<Rightarrow> error + 'r) \<Rightarrow> 'r decoder" where
  "dec_struct field j r =
     (case j of
        JNull \<Rightarrow> Inr r
      | JObject ms \<Rightarrow> dec_members field ms r
      | _ \<Rightarrow> Inl DecodeError)"

subsection \<open>Decoders of the records of instance.go\<close>

text \<open>
  The types instance.go takes from elsewhere come as parameters: the decoder, the zero
  value and the encoder of \<^verbatim>\<open>Account\<close>, and the generic decoder and encoder of the
  dynamic values of \<^verbatim>\<open>interface{}\<close>.
\<close>

record ('a, 'v) extern =
  dec_Account :: "'a decoder"
  Account_zero :: 'a
  enc_Account :: "'a \<Rightarrow> json"
  dec_any :: "json \<Rightarrow> error + 'v"
  enc_any :: "'v \<Rightarrow> json"

definition InstanceStats_zero :: InstanceStats where
  "InstanceStats_zero = \<lparr>UserCount = 0, StatusCount = 0, DomainCount = 0\<rparr>"

definition InstanceStats_field :: "string \<Rightarrow> json \<Rightarrow> InstanceStats \<Rightarrow> error + InstanceStats" where
  "InstanceStats_field k v r =
     (if names k ''user_count'' then store (dec_int v (UserCount r)) (\<lambda>x. r\<lparr>UserCount := x\<rparr>)
      else if names k ''status_count'' then
        store (dec_int v (StatusCount r)) (\<lambda>x. r\<lparr>StatusCount := x\<rparr>)
      else if names k ''domain_count'' then
        store (dec_int v (DomainCount r)) (\<lambda>x. r\<lparr>DomainCount := x\<rparr>)
      else Inr r)"

definition InstanceConfig_zero :: "'v InstanceConfig" where
  "InstanceConfig_zero =
     \<lparr>InstanceConfig.Accounts = None, InstanceConfig.Statuses = None,
      InstanceConfig.MediaAttachments = None, InstanceConfig.Polls = None\<rparr>"

definition InstanceConfig_field ::
  "('a, 'v) extern \<Rightarrow> string \<Rightarrow> json \<Rightarrow> 'v InstanceConfig \<Rightarrow> error + 'v InstanceConfig" where
  "InstanceConfig_field P k v r =
     (if names k ''accounts'' then
        store (dec_ptr (dec_map (dec_iface (dec_any P)) None) None v (InstanceConfig.Accounts r))
          (\<lambda>x. r\<lparr>InstanceConfig.Accounts := x\<rparr>)
      else if names k ''statuses'' then
        store (dec_ptr (dec_map (dec_iface (dec_any P)) None) None v (InstanceConfig.Statuses r))
          (\<lambda>x. r\<lparr>InstanceConfig.Statuses := x\<rparr>)
      else if names k ''media_attachments'' then
        store (dec_map (dec_iface (dec_any P)) None v (InstanceConfig.MediaAttachments r))
          (\<lambda>x. r\<lparr>InstanceConfig.MediaAttachments := x\<rparr>)
      else if names k ''polls'' then
        store (dec_ptr (dec_map (dec_iface (dec_any P)) None) None v (InstanceConfig.Polls r))
          (\<lambda>x. r\<lparr>InstanceConfig.Polls := x\<rparr>)
      else Inr r)"

definition Instance_field ::
  "('a, 'v) extern \<Rightarrow> string \<Rightarrow> json \<Rightarrow> ('a, 'v) Instance \<Rightarrow> error + ('a, 'v) Instance" where
  "Instance_field P k v r =
     (if names k ''uri'' then store (dec_string v (URI r)) (\<lambda>x. r\<lparr>URI := x\<rparr>)
      else if names k ''title'' then
        store (dec_string v (Instance.Title r)) (\<lambda>x. r\<lparr>Instance.Title := x\<rparr>)
      else if names k ''description'' then
        store (dec_string v (Instance.Description r)) (\<lambda>x. r\<lparr>Instance.Description := x\<rparr>)
      else if names k ''email'' then store (dec_string v (EMail r)) (\<lambda>x. r\<lparr>EMail := x\<rparr>)
      else if names k ''version'' then
        store (dec_string v (Instance.Version r)) (\<lambda>x. r\<lparr>Instance.Version := x\<rparr>)
      else if names k ''thumbnail'' then
        store (dec_string v (Instance.Thumbnail r)) (\<lambda>x. r\<lparr>Instance.Thumbnail := x\<rparr>)
      else if names k ''urls'' then
        store (dec_map dec_string [] v (URLs r)) (\<lambda>x. r\<lparr>URLs := x\<rparr>)
      else if names k ''stats'' then
        store (dec_ptr (dec_struct InstanceStats_field) InstanceStats_zero v (Stats r))
          (\<lambda>x. r\<lparr>Stats := x\<rparr>)
      else if names k ''languages'' then
        store (dec_slice dec_string [] v (Instance.Languages r))
          (\<lambda>x. r\<lparr>Instance.Languages := x\<rparr>)
      else if names k ''contact_account'' then
        store (dec_ptr (dec_Account P) (Account_zero P) v (ContactAccount r))
          (\<lambda>x. r\<lparr>ContactAccount := x\<rparr>)
      else if names k ''configuration'' then
        store (dec_ptr (dec_struct (InstanceConfig_field P)) InstanceConfig_zero v
                 (Instance.Configuration r))
          (\<lambda>x. r\<lparr>Instance.Configuration := x\<rparr>)
      else Inr r)"

definition dec_Instance :: "('a, 'v) extern \<Rightarrow> ('a, 'v) Instance decoder" where
  "dec_Instance P = dec_struct (Instance_field P)"

text \<open>The structs of \<^verbatim>\<open>InstanceV2\<close>, innermost first.\<close>

definition V2_Usage_Users_field ::
  "string \<Rightarrow> json \<Rightarrow> V2_Usage_Users \<Rightarrow> error + V2_Usage_Users" where
  "V2_Usage_Users_field k v r =
     (if names k ''active_month'' then
        store (dec_int v (ActiveMonth r)) (\<lambda>x. r\<lparr>ActiveMonth := x\<rparr>)
      else Inr r)"

definition V2_Usage_field :: "string \<Rightarrow> json \<Rightarrow> V2_Usage \<Rightarrow> error + V2_Usage" where
  "V2_Usage_field k v r =
     (if names k ''users'' then
        store (dec_struct V2_Usage_Users_field v (Users r)) (\<lambda>x. r\<lparr>Users := x\<rparr>)
      else Inr r)"

definition V2_Thumbnail_Versions_field ::
  "('a, 'v) extern \<Rightarrow> string \<Rightarrow> json \<Rightarrow> 'v V2_Thumbnail_Versions
     \<Rightarrow> error + 'v V2_Thumbnail_Versions" where
  "V2_Thumbnail_Versions_field P k v r =
     (if names k ''@1x'' then
        store (dec_iface (dec_any P) v (One_X r)) (\<lambda>x. r\<lparr>One_X := x\<rparr>)
      else if names k ''@2x'' then
        store (dec_iface (dec_any P) v (Two_X r)) (\<lambda>x. r\<lparr>Two_X := x\<rparr>)
      else Inr r)"

definition V2_Thumbnail_field ::
  "('a, 'v) extern \<Rightarrow> string \<Rightarrow> json \<Rightarrow> 'v V2_Thumbnail \<Rightarrow> error + 'v V2_Thumbnail" where
  "V2_Thumbnail_field P k v r =
     (if names k ''url'' then store (dec_string v (URL r)) (\<lambda>x. r\<lparr>URL := x\<rparr>)
      else if names k ''blurhash'' then
        store (dec_iface (dec_any P) v (Blurhash r)) (\<lambda>x. r\<lparr>Blurhash := x\<rparr>)
      else if names k ''versions'' then
        store (dec_struct (V2_Thumbnail_Versions_field P) v (Versions r))
          (\<lambda>x. r\<lparr>Versions := x\<rparr>)
      else Inr r)"

definition V2_Configuration_Urls_field ::
  "string \<Rightarrow> json \<Rightarrow> V2_Configuration_Urls \<Rightarrow> error + V2_Configuration_Urls" where
  "V2_Configuration_Urls_field k v r =
     (if names k ''streaming'' then
        store (dec_string v (Streaming r)) (\<lambda>x. r\<lparr>Streaming := x\<rparr>)
      else Inr r)"

definition V2_Configuration_Accounts_field ::
  "string \<Rightarrow> json \<Rightarrow> V2_Configuration_Accounts \<Rightarrow> error + V2_Configuration_Accounts" where
  "V2_Configuration_Accounts_field k v r =
     (if names k ''max_featured_tags'' then
        store (dec_int v (MaxFeaturedTags r)) (\<lambda>x. r\<lparr>MaxFeaturedTags := x\<rparr>)
      else Inr r)"

definition V2_Configuration_Statuses_field ::
  "string \<Rightarrow> json \<Rightarrow> V2_Configuration_Statuses \<Rightarrow> error + V2_Configuration_Statuses" where
  "V2_Configuration_Statuses_field k v r =
     (if names k ''max_characters'' then
        store (dec_int v (MaxCharacters r)) (\<lambda>x. r\<lparr>MaxCharacters := x\<rparr>)
      else if names k ''max_media_attachments'' then
        store (dec_int v (MaxMediaAttachments r)) (\<lambda>x. r\<lparr>MaxMediaAttachments := x\<rparr>)
      else if names k ''characters_reserved_per_url'' then
        store (dec_int v (CharactersReservedPerURL r))
          (\<lambda>x. r\<lparr>CharactersReservedPerURL := x\<rparr>)
      else Inr r)"

definition V2_Configuration_MediaAttachments_field ::
  "string \<Rightarrow> json \<Rightarrow> V2_Configuration_MediaAttachments
     \<Rightarrow> error + V2_Configuration_MediaAttachments" where
  "V2_Configuration_MediaAttachments_field k v r =
     (if names k ''supported_mime_types'' then
        store (dec_slice dec_string [] v (SupportedMimeTypes r))
          (\<lambda>x. r\<lparr>SupportedMimeTypes := x\<rparr>)
      else if names k ''image_size_limit'' then
        store (dec_int v (ImageSizeLimit r)) (\<lambda>x. r\<lparr>ImageSizeLimit := x\<rparr>)
      else if names k ''image_matrix_limit'' then
        store (dec_int v (ImageMatrixLimit r)) (\<lambda>x. r\<lparr>ImageMatrixLimit := x\<rparr>)
      else if names k ''video_size_limit'' then
        store (dec_int v (VideoSizeLimit r)) (\<lambda>x. r\<lparr>VideoSizeLimit := x\<rparr>)
      else if names k ''video_frame_rate_limit'' then
        store (dec_int v (VideoFrameRateLimit r)) (\<lambda>x. r\<lparr>VideoFrameRateLimit := x\<rparr>)
      else if names k ''video_matrix_limit'' then
        store (dec_int v (VideoMatrixLimit r)) (\<lambda>x. r\<lparr>VideoMatrixLimit := x\<rparr>)
      else Inr r)"

definition V2_Configuration_Polls_field ::
  "string \<Rightarrow> json \<Rightarrow> V2_Configuration_Polls \<Rightarrow> error + V2_Configuration_Polls" where
  "V2_Configuration_Polls_field k v r =
     (if names k ''max_options'' then
        store (dec_int v (MaxOptions r)) (\<lambda>x. r\<lparr>MaxOptions := x\<rparr>)
      else if names k ''max_characters_per_option'' then
        store (dec_int v (MaxCharactersPerOption r)) (\<lambda>x. r\<lparr>MaxCharactersPerOption := x\<rparr>)
      else if names k ''min_expiration'' then
        store (dec_int v (MinExpiration r)) (\<lambda>x. r\<lparr>MinExpiration := x\<rparr>)
      else if names k ''max_expiration'' then
        store (dec_int v (MaxExpiration r)) (\<lambda>x. r\<lparr>MaxExpiration := x\<rparr>)
      else Inr r)"

definition V2_Configuration_Translation_field ::
  "string \<Rightarrow> json \<Rightarrow> V2_Configuration_Translation \<Rightarrow> error + V2_Configuration_Translation"
where
  "V2_Configuration_Translation_field k v r =
     (if names k ''enabled'' then
        store (dec_bool v (V2_Configuration_Translation.Enabled r))
          (\<lambda>x. r\<lparr>V2_Configuration_Translation.Enabled := x\<rparr>)
      else Inr r)"

definition V2_Configuration_field ::
  "string \<Rightarrow> json \<Rightarrow> V2_Configuration \<Rightarrow> error + V2_Configuration" where
  "V2_Configuration_field k v r =
     (if names k ''urls'' then
        store (dec_struct V2_Configuration_Urls_field v (Urls r)) (\<lambda>x. r\<lparr>Urls := x\<rparr>)
      else if names k ''accounts'' then
        store (dec_struct V2_Configuration_Accounts_field v (V2_Configuration.Accounts r))
          (\<lambda>x. r\<lparr>V2_Configuration.Accounts := x\<rparr>)
      else if names k ''statuses'' then
        store (dec_struct V2_Configuration_Statuses_field v (V2_Configuration.Statuses r))
          (\<lambda>x. r\<lparr>V2_Configuration.Statuses := x\<rparr>)
      else if names k ''media_attachments'' then
        store (dec_struct V2_Configuration_MediaAttachments_field v
                 (V2_Configuration.MediaAttachments r))
          (\<lambda>x. r\<lparr>V2_Configuration.MediaAttachments := x\<rparr>)
      else if names k ''polls'' then
        store (dec_struct V2_Configuration_Polls_field v (V2_Configuration.Polls r))
          (\<lambda>x. r\<lparr>V2_Configuration.Polls := x\<rparr>)
      else if names k ''translation'' then
        store (dec_struct V2_Configuration_Translation_field v (Translation r))
          (\<lambda>x. r\<lparr>Translation := x\<rparr>)
      else Inr r)"

definition V2_Registrations_field ::
  "('a, 'v) extern \<Rightarrow> string \<Rightarrow> json \<Rightarrow> 'v V2_Registrations \<Rightarrow> error + 'v V2_Registrations"
where
  "V2_Registrations_field P k v r =
     (if names k ''enabled'' then
        store (dec_bool v (V2_Registrations.Enabled r))
          (\<lambda>x. r\<lparr>V2_Registrations.Enabled := x\<rparr>)
      else if names k ''approval_required'' then
        store (dec_bool v (ApprovalRequired r)) (\<lambda>x. r\<lparr>ApprovalRequired := x\<rparr>)
      else if names k ''message'' then
        store (dec_iface (dec_any P) v (Message r)) (\<lambda>x. r\<lparr>Message := x\<rparr>)
      else Inr r)"

text \<open>The field \<^verbatim>\<open>Account\<close> of the contact has no tag: its name is its identifier.\<close>

definition V2_Contact_field ::
  "('a, 'v) extern \<Rightarrow> string \<Rightarrow> json \<Rightarrow> 'a V2_Contact \<Rightarrow> error + 'a V2_Contact" where
  "V2_Contact_field P k v r =
     (if names k ''email'' then store (dec_string v (Email r)) (\<lambda>x. r\<lparr>Email := x\<rparr>)
      else if names k ''Account'' then
        store (dec_ptr (dec_Account P) (Account_zero P) v (Account r))
          (\<lambda>x. r\<lparr>Account := x\<rparr>)
      else Inr r)"

definition Rule_zero :: Rule where
  "Rule_zero = \<lparr>ID = [], Text = []\<rparr>"

definition Rule_field :: "string \<Rightarrow> json \<Rightarrow> Rule \<Rightarrow> error + Rule" where
  "Rule_field k v r =
     (if names k ''id'' then store (dec_string v (ID r)) (\<lambda>x. r\<lparr>ID := x\<rparr>)
      else if names k ''text'' then store (dec_string v (Text r)) (\<lambda>x. r\<lparr>Text := x\<rparr>)
      else Inr r)"

definition InstanceV2_field ::
  "('a, 'v) extern \<Rightarrow> string \<Rightarrow> json \<Rightarrow> ('a, 'v) InstanceV2 \<Rightarrow> error + ('a, 'v) InstanceV2"
where
  "InstanceV2_field P k v r =
     (if names k ''domain'' then store (dec_string v (Domain r)) (\<lambda>x. r\<lparr>Domain := x\<rparr>)
      else if names k ''title'' then
        store (dec_string v (InstanceV2.Title r)) (\<lambda>x. r\<lparr>InstanceV2.Title := x\<rparr>)
      else if names k ''version'' then
        store (dec_string v (InstanceV2.Version r)) (\<lambda>x. r\<lparr>InstanceV2.Version := x\<rparr>)
      else if names k ''source_url'' then
        store (dec_string v (SourceURL r)) (\<lambda>x. r\<lparr>SourceURL := x\<rparr>)
      else if names k ''description'' then
        store (dec_string v (InstanceV2.Description r))
          (\<lambda>x. r\<lparr>InstanceV2.Description := x\<rparr>)
      else if names k ''usage'' then
        store (dec_struct V2_Usage_field v (Usage r)) (\<lambda>x. r\<lparr>Usage := x\<rparr>)
      else if names k ''thumbnail'' then
        store (dec_struct (V2_Thumbnail_field P) v (InstanceV2.Thumbnail r))
          (\<lambda>x. r\<lparr>InstanceV2.Thumbnail := x\<rparr>)
      else if names k ''languages'' then
        store (dec_slice dec_string [] v (InstanceV2.Languages r))
          (\<lambda>x. r\<lparr>InstanceV2.Languages := x\<rparr>)
      else if names k ''configuration'' then
        store (dec_struct V2_Configuration_field v (InstanceV2.Configuration r))
          (\<lambda>x. r\<lparr>InstanceV2.Configuration := x\<rparr>)
      else if names k ''registrations'' then
        store (dec_struct (V2_Registrations_field P) v (InstanceV2.Registrations r))
          (\<lambda>x. r\<lparr>InstanceV2.Registrations := x\<rparr>)
      else if names k ''contact'' then
        store (dec_struct (V2_Contact_field P) v (Contact r)) (\<lambda>x. r\<lparr>Contact := x\<rparr>)
      else if names k ''rules'' then
        store (dec_slice (dec_struct Rule_field) Rule_zero v (Rules r))
          (\<lambda>x. r\<lparr>Rules := x\<rparr>)
      else Inr r)"

definition dec_InstanceV2 :: "('a, 'v) extern \<Rightarrow> ('a, 'v) InstanceV2 decoder" where
  "dec_InstanceV2 P = dec_struct (InstanceV2_field P)"





subsection \<open>Activity records and peers\<close>

text \<open>
  The calendar: \<open>Date y m d hh mm ss\<close> is the point in time written
  \<open>y-m-dThh:mm:ssZ\<close>, as Go's \<^verbatim>\<open>time.Date\<close> gives it in UTC, counted in days of the
  proleptic Gregorian calendar since 1970-01-01.
\<close>

definition days_from_civil :: "int \<Rightarrow> int \<Rightarrow> int \<Rightarrow> int" where
  "days_from_civil y m d =
     (let y' = (if m \<le> 2 then y - 1 else y);
          era = y' div 400;
          yoe = y' - era * 400;
          doy = (153 * (if m > 2 then m - 3 else m + 9) + 2) div 5 + d - 1;
          doe = yoe * 365 + yoe div 4 - yoe div 100 + doy
      in era * 146097 + doe - 719468)"

definition Date :: "int \<Rightarrow> int \<Rightarrow> int \<Rightarrow> int \<Rightarrow> int \<Rightarrow> int \<Rightarrow> Unixtime" where
  "Date y m d hh mm ss = Unix (days_from_civil y m d * 86400 + hh * 3600 + mm * 60 + ss)"

text \<open>
  Modelled from the spec: the decoding of \<^verbatim>\<open>Unixtime\<close> (its \<^verbatim>\<open>UnmarshalJSON\<close>) is outside
  instance.go. The specification: the week is transmitted as a numeric string, and the
  string is interpreted as Unix epoch seconds. Anything else is a decode error.
\<close>

definition dec_Unixtime :: "Unixtime decoder" where
  "dec_Unixtime j old =
     (case j of
        JString s \<Rightarrow> (case ParseInt s of Some n \<Rightarrow> Inr (Unix n) | None \<Rightarrow> Inl DecodeError)
      | _ \<Rightarrow> Inl DecodeError)"

text \<open>The zero value of Go's \<^verbatim>\<open>time.Time\<close> is January 1 of year 1, 00:00:00 UTC.\<close>

definition WeeklyActivity_zero :: WeeklyActivity where
  "WeeklyActivity_zero =
     \<lparr>Week = Date 1 1 1 0 0 0, WeeklyActivity.Statuses = 0, Logins = 0,
      WeeklyActivity.Registrations = 0\<rparr>"

definition WeeklyActivity_field ::
  "string \<Rightarrow> json \<Rightarrow> WeeklyActivity \<Rightarrow> error + WeeklyActivity" where
  "WeeklyActivity_field k v r =
     (if names k ''week'' then store (dec_Unixtime v (Week r)) (\<lambda>x. r\<lparr>Week := x\<rparr>)
      else if names k ''statuses'' then
        store (dec_int_quoted v (WeeklyActivity.Statuses r))
          (\<lambda>x. r\<lparr>WeeklyActivity.Statuses := x\<rparr>)
      else if names k ''logins'' then
        store (dec_int_quoted v (Logins r)) (\<lambda>x. r\<lparr>Logins := x\<rparr>)
      else if names k ''registrations'' then
        store (dec_int_quoted v (WeeklyActivity.Registrations r))
          (\<lambda>x. r\<lparr>WeeklyActivity.Registrations := x\<rparr>)
      else Inr r)"

definition dec_WeeklyActivity :: "WeeklyActivity decoder" where
  "dec_WeeklyActivity = dec_struct WeeklyActivity_field"

text \<open>The destinations of \<^verbatim>\<open>GetInstanceActivity\<close> (\<^verbatim>\<open>[]*WeeklyActivity\<close>) and of
  \<^verbatim>\<open>GetInstancePeers\<close> (\<^verbatim>\<open>[]string\<close>).\<close>

definition dec_activity :: "WeeklyActivity ptr slice decoder" where
  "dec_activity = dec_slice (dec_ptr dec_WeeklyActivity WeeklyActivity_zero) None"

definition dec_peers :: "string slice decoder" where
  "dec_peers = dec_slice dec_string []"

subsection \<open>The API caller\<close>

text \<open>
  Modelled from the spec: the method \<^verbatim>\<open>doAPI\<close> is outside instance.go. The specification
  (section 2): given a method, a path, a request body and an output destination, it
  performs the HTTP call, checks the status code and decodes the JSON payload into the
  destination; it returns an error on transport failure, on a non-2xx status (no payload
  is decoded then) and on decode failure (the body is not valid JSON, or a field cannot be
  coerced to its declared type). The HTTP exchange is a parameter: it answers a request
  with no reply or with a status and a body, \<open>None\<close> for a body that is not JSON.
\<close>

datatype reply = NoReply | Reply nat "json option"

definition doAPI_spec ::
  "('c \<Rightarrow> 'x \<Rightarrow> string \<Rightarrow> string \<Rightarrow> 'p option \<Rightarrow> 'w \<Rightarrow> reply \<times> 'w) \<Rightarrow> 'd decoder
     \<Rightarrow> ('c, 'x, 'p, 'g, 'd, error, 'w) doAPI" where
  "doAPI_spec http dec c ctx method uri params res pg w =
     (case http c ctx method uri params w of
        (NoReply, w') \<Rightarrow> ((Some TransportError, res), w')
      | (Reply status body, w') \<Rightarrow>
          if \<not> (200 \<le> status \<and> status < 300) then ((Some (StatusError status), res), w')
          else (case body of
                  None \<Rightarrow> ((Some DecodeError, res), w')
                | Some j \<Rightarrow>
                    (case dec j res of
                       Inl e \<Rightarrow> ((Some e, res), w')
                     | Inr res' \<Rightarrow> ((None, res'), w'))))"

text \<open>
  The server of the tests of instance.go (instance_test.go): it answers the first request
  with status 500 and a text that is not JSON, and every later request with status 200 and
  the given body, whatever the method and the path. Its state is the flag \<^verbatim>\<open>canErr\<close>.
\<close>

definition test_server ::
  "json \<Rightarrow> 'c \<Rightarrow> 'x \<Rightarrow> string \<Rightarrow> string \<Rightarrow> 'p option \<Rightarrow> bool \<Rightarrow> reply \<times> bool" where
  "test_server body c ctx method uri params canErr =
     (if canErr then (Reply 500 None, False) else (Reply 200 (Some body), canErr))"

section \<open>Encoding an Instance\<close>

text \<open>
  instance.go never encodes a record; the tags of \<^verbatim>\<open>Instance\<close> say what
  \<^verbatim>\<open>json.Marshal\<close> would write. A struct becomes an object with one member per field, in the
  order of the declaration, under the name of the tag. A field tagged \<^verbatim>\<open>omitempty\<close> is
  left out when it is empty: the empty string, a \<^verbatim>\<open>nil\<close> pointer, a map of length zero
  (\<^verbatim>\<open>nil\<close> or not). A \<^verbatim>\<open>nil\<close> pointer, slice, map or interface that is not left out
  becomes \<^verbatim>\<open>null\<close>; a map becomes an object with the keys in increasing order; an
  integer becomes its decimal literal.
\<close>

text \<open>The character of a digit; it is asked for digits below ten only.\<close>

definition digit_char :: "nat \<Rightarrow> char" where
  "digit_char d = ''0123456789'' ! d"

function digits :: "nat \<Rightarrow> string" where
  "digits n = (if n < 10 then [digit_char n] else digits (n div 10) @ [digit_char (n mod 10)])"
  by pat_completeness auto
termination
  by (relation "measure (\<lambda>n. n)") auto

declare digits.simps [simp del]

text \<open>\<^verbatim>\<open>strconv.FormatInt(i, 10)\<close>.\<close>

definition FormatInt :: "int \<Rightarrow> string" where
  "FormatInt i = (if i < 0 then CHR ''-'' # digits (nat (- i)) else digits (nat i))"

definition enc_int :: "64 word \<Rightarrow> json" where
  "enc_int w = JNumber (FormatInt (sint w))"

definition enc_ptr :: "('d \<Rightarrow> json) \<Rightarrow> 'd ptr \<Rightarrow> json" where
  "enc_ptr enc p = (case p of None \<Rightarrow> JNull | Some x \<Rightarrow> enc x)"

definition enc_slice :: "('d \<Rightarrow> json) \<Rightarrow> 'd slice \<Rightarrow> json" where
  "enc_slice enc s = (case s of None \<Rightarrow> JNull | Some xs \<Rightarrow> JArray (map enc xs))"

definition enc_map :: "('d \<Rightarrow> json) \<Rightarrow> (string, 'd) go_map \<Rightarrow> json" where
  "enc_map enc m =
     (case m of
        None \<Rightarrow> JNull
      | Some fm \<Rightarrow> JObject (map (\<lambda>(k, v). (k, enc v)) (sorted_list_of_fmap fm)))"

definition enc_iface :: "('v \<Rightarrow> json) \<Rightarrow> 'v iface \<Rightarrow> json" where
  "enc_iface enc v = (case v of None \<Rightarrow> JNull | Some x \<Rightarrow> enc x)"

definition enc_InstanceStats :: "InstanceStats \<Rightarrow> json" where
  "enc_InstanceStats r =
     JObject
       [(''user_count'', enc_int (UserCount r)),
        (''status_count'', enc_int (StatusCount r)),
        (''domain_count'', enc_int (DomainCount r))]"

definition enc_InstanceConfig :: "('a, 'v) extern \<Rightarrow> 'v InstanceConfig \<Rightarrow> json" where
  "enc_InstanceConfig P r =
     JObject
       [(''accounts'', enc_ptr (enc_map (enc_iface (enc_any P))) (InstanceConfig.Accounts r)),
        (''statuses'', enc_ptr (enc_map (enc_iface (enc_any P))) (InstanceConfig.Statuses r)),
        (''media_attachments'',
           enc_map (enc_iface (enc_any P)) (InstanceConfig.MediaAttachments r)),
        (''polls'', enc_ptr (enc_map (enc_iface (enc_any P))) (InstanceConfig.Polls r))]"

definition enc_Instance :: "('a, 'v) extern \<Rightarrow> ('a, 'v) Instance \<Rightarrow> json" where
  "enc_Instance P r =
     JObject
       ([(''uri'', JString (URI r)),
         (''title'', JString (Instance.Title r)),
         (''description'', JString (Instance.Description r)),
         (''email'', JString (EMail r))]
        @ (if Instance.Version r = [] then []
           else [(''version'', JString (Instance.Version r))])
        @ (if Instance.Thumbnail r = [] then []
           else [(''thumbnail'', JString (Instance.Thumbnail r))])
        @ (if URLs r = None \<or> URLs r = Some fmempty then []
           else [(''urls'', enc_map JString (URLs r))])
        @ (if Stats r = None then [] else [(''stats'', enc_ptr enc_InstanceStats (Stats r))])
        @ [(''languages'', enc_slice JString (Instance.Languages r)),
           (''contact_account'', enc_ptr (enc_Account P) (ContactAccount r)),
           (''configuration'', enc_ptr (enc_InstanceConfig P) (Instance.Configuration r))])"

text \<open>
  The accounts a decoding produces. \<^verbatim>\<open>Unmarshal\<close> decodes a value that is not
  \<^verbatim>\<open>null\<close> into what the pointer points to: a new account at its zero value, or, when
  the key comes again, the account an earlier member has produced.
\<close>

inductive decoded_Account :: "('a, 'v) extern \<Rightarrow> 'a \<Rightarrow> bool" for P :: "('a, 'v) extern" where
  fresh: "j \<noteq> JNull \<Longrightarrow> dec_Account P j (Account_zero P) = Inr a \<Longrightarrow> decoded_Account P a"
| again: "decoded_Account P a0 \<Longrightarrow> j \<noteq> JNull \<Longrightarrow> dec_Account P j a0 = Inr a
            \<Longrightarrow> decoded_Account P a"

text \<open>
  What the round trip asks of the parameters: an account and a dynamic value that a
  decoding has produced are encoded to a value that is not \<^verbatim>\<open>null\<close> and that decodes
  to them again.
\<close>

definition lossless :: "('a, 'v) extern \<Rightarrow> bool" where
  "lossless P \<longleftrightarrow>
     (\<forall>a. decoded_Account P a
        \<longrightarrow> enc_Account P a \<noteq> JNull
            \<and> dec_Account P (enc_Account P a) (Account_zero P) = Inr a)
     \<and> (\<forall>j v. j \<noteq> JNull \<and> dec_any P j = Inr v
        \<longrightarrow> enc_any P v \<noteq> JNull \<and> dec_any P (enc_any P v) = Inr v)"

text \<open>
  The shape of a decoded record. Its account is a decoded one, a dynamic value in it
  survives the round trip, and a pointer to a map never points to the \<^verbatim>\<open>nil\<close> map,
  because decoding an object allocates the map.
\<close>

definition value_ok :: "('a, 'v) extern \<Rightarrow> 'v iface \<Rightarrow> bool" where
  "value_ok P x \<longleftrightarrow>
     (case x of
        None \<Rightarrow> True
      | Some v \<Rightarrow> enc_any P v \<noteq> JNull \<and> dec_any P (enc_any P v) = Inr v)"

definition map_ok :: "('a, 'v) extern \<Rightarrow> (string, 'v iface) go_map \<Rightarrow> bool" where
  "map_ok P m \<longleftrightarrow>
     (case m of
        None \<Rightarrow> True
      | Some fm \<Rightarrow> \<forall>k x. fmlookup fm k = Some x \<longrightarrow> value_ok P x)"

definition ptr_map_ok :: "('a, 'v) extern \<Rightarrow> 'v InstanceConfigMap ptr \<Rightarrow> bool" where
  "ptr_map_ok P p \<longleftrightarrow> (case p of None \<Rightarrow> True | Some m \<Rightarrow> m \<noteq> None \<and> map_ok P m)"

definition config_ok :: "('a, 'v) extern \<Rightarrow> 'v InstanceConfig \<Rightarrow> bool" where
  "config_ok P c \<longleftrightarrow>
     ptr_map_ok P (InstanceConfig.Accounts c) \<and> ptr_map_ok P (InstanceConfig.Statuses c)
     \<and> map_ok P (InstanceConfig.MediaAttachments c) \<and> ptr_map_ok P (InstanceConfig.Polls c)"

definition instance_ok :: "('a, 'v) extern \<Rightarrow> ('a, 'v) Instance \<Rightarrow> bool" where
  "instance_ok P i \<longleftrightarrow>
     (case ContactAccount i of None \<Rightarrow> True | Some a \<Rightarrow> decoded_Account P a)
     \<and> (case Instance.Configuration i of None \<Rightarrow> True | Some c \<Rightarrow> config_ok P c)"

subsection \<open>A sample instance of the parameters\<close>

text \<open>
  To run the model on the bodies of instance_test.go the parameters need values. This
  instance is a sample, not the \<^verbatim>\<open>Account\<close> of the repository: the sample account keeps
  the one field the tests of instance.go read, \<^verbatim>\<open>Username\<close> with the key
  \<^verbatim>\<open>username\<close>, and the sample dynamic values are the JSON values themselves.
\<close>

record Account_sample =
  Username :: string

definition Account_sample_field ::
  "string \<Rightarrow> json \<Rightarrow> Account_sample \<Rightarrow> error + Account_sample" where
  "Account_sample_field k v r =
     (if names k ''username'' then store (dec_string v (Username r)) (\<lambda>x. r\<lparr>Username := x\<rparr>)
      else Inr r)"

definition sample :: "(Account_sample, json) extern" where
  "sample =
     \<lparr>dec_Account = dec_struct Account_sample_field,
      Account_zero = \<lparr>Username = []\<rparr>,
      enc_Account = (\<lambda>a. JObject [(''username'', JString (Username a))]),
      dec_any = Inr,
      enc_any = (\<lambda>v. v)\<rparr>"

text \<open>
  A second instance takes a record of instance.go itself as the account:
  \<^verbatim>\<open>InstanceConfig\<close>, whose fields are maps and pointers to maps.
\<close>

definition config_as_account :: "(json InstanceConfig, json) extern" where
  "config_as_account =
     \<lparr>dec_Account = dec_struct (InstanceConfig_field sample),
      Account_zero = InstanceConfig_zero,
      enc_Account = enc_InstanceConfig sample,
      dec_any = Inr,
      enc_any = (\<lambda>v. v)\<rparr>"

subsection \<open>The bodies of instance_test.go\<close>

text \<open>
  The JSON bodies the test server of instance_test.go sends, as values. In the body of
  \<^verbatim>\<open>TestGetInstanceV2\<close> the member \<^verbatim>\<open>display_name\<close> of the account, a text outside
  ASCII, is left out.
\<close>

definition body_TestGetInstance :: json where
  "body_TestGetInstance =
     JObject
       [(''title'', JString ''mastodon''),
        (''uri'', JString ''http://mstdn.example.com''),
        (''description'', JString ''test mastodon''),
        (''email'', JString ''mstdn@mstdn.example.com''),
        (''contact_account'', JObject
         [(''username'', JString ''mattn'')])]"

definition account_TestGetInstanceV2 :: json where
  "account_TestGetInstanceV2 =
     JObject
       [(''id'', JString ''1''),
        (''username'', JString ''Gargron''),
        (''acct'', JString ''Gargron''),
        (''locked'', JBool False),
        (''bot'', JBool False),
        (''discoverable'', JBool True),
        (''group'', JBool False),
        (''created_at'', JString ''2016-03-16T00:00:00.000Z''),
        (''note'', JString ''>''),
        (''url'', JString ''https://mastodon.social/@Gargron''),
        (''avatar'', JString ''''),
        (''avatar_static'', JString ''''),
        (''header'', JString ''''),
        (''header_static'', JString ''''),
        (''followers_count'', JNumber ''133026''),
        (''following_count'', JNumber ''311''),
        (''statuses_count'', JNumber ''72605''),
        (''last_status_at'', JString ''2022-10-31''),
        (''noindex'', JBool False),
        (''emojis'', JArray []),
        (''fields'', JArray [])]"

definition contact_TestGetInstanceV2 :: json where
  "contact_TestGetInstanceV2 =
     JObject
       [(''email'', JString ''staff@mastodon.social''),
        (''account'', account_TestGetInstanceV2)]"

definition body_TestGetInstanceV2 :: json where
  "body_TestGetInstanceV2 =
     JObject
       [(''domain'', JString ''mastodon.social''),
        (''title'', JString ''Mastodon''),
        (''version'', JString ''4.0.0rc1''),
        (''source_url'', JString ''https://github.com/mastodon/mastodon''),
        (''description'',
          JString ''The original server operated by the Mastodon gGmbH non-profit''),
        (''usage'', JObject
         [(''users'', JObject
           [(''active_month'', JNumber ''123122'')])]),
        (''thumbnail'', JObject
         [(''url'',
           JString ''https://files.mastodon.social/site_uploads/files/000/000/001/@1x/57c12f441d083cde.png''),
          (''blurhash'', JString ''UeKUpFxuo~R%0nW;WCnhF6RjaJt757oJodS$''),
          (''versions'', JObject
           [(''@1x'',
             JString ''https://files.mastodon.social/site_uploads/files/000/000/001/@1x/57c12f441d083cde.png''),
            (''@2x'',
              JString ''https://files.mastodon.social/site_uploads/files/000/000/001/@2x/57c12f441d083cde.png'')])]),
        (''languages'', JArray [JString ''en'']),
        (''configuration'', JObject
         [(''urls'', JObject
           [(''streaming'', JString ''wss://mastodon.social'')]),
          (''accounts'', JObject
           [(''max_featured_tags'', JNumber ''10'')]),
          (''statuses'', JObject
           [(''max_characters'', JNumber ''500''),
            (''max_media_attachments'', JNumber ''4''),
            (''characters_reserved_per_url'', JNumber ''23'')]),
          (''media_attachments'', JObject
           [(''supported_mime_types'', JArray [JString ''image/jpeg'', JString ''image/png'']),
            (''image_size_limit'', JNumber ''10485760''),
            (''image_matrix_limit'', JNumber ''16777216''),
            (''video_size_limit'', JNumber ''41943040''),
            (''video_frame_rate_limit'', JNumber ''60''),
            (''video_matrix_limit'', JNumber ''2304000'')]),
          (''polls'', JObject
           [(''max_options'', JNumber ''4''),
            (''max_characters_per_option'', JNumber ''50''),
            (''min_expiration'', JNumber ''300''),
            (''max_expiration'', JNumber ''2629746'')]),
          (''translation'', JObject
           [(''enabled'', JBool True)])]),
        (''registrations'', JObject
         [(''enabled'', JBool False),
          (''approval_required'', JBool False),
          (''message'', JNull)]),
        (''contact'', contact_TestGetInstanceV2),
        (''rules'', JArray [JObject
         [(''id'', JString ''1''),
          (''text'', JString ''Behave'')], JObject
         [(''id'', JString ''2''),
          (''text'', JString ''Be nice'')]])]"

definition body_TestGetInstanceMore :: json where
  "body_TestGetInstanceMore =
     JObject
       [(''title'', JString ''mastodon''),
        (''uri'', JString ''http://mstdn.example.com''),
        (''description'', JString ''test mastodon''),
        (''email'', JString ''mstdn@mstdn.example.com''),
        (''version'', JString ''0.0.1''),
        (''urls'', JObject
         [(''foo'', JString ''http://stream1.example.com''),
          (''bar'', JString ''http://stream2.example.com'')]),
        (''thumbnail'', JString ''http://mstdn.example.com/logo.png''),
        (''configuration'', JObject
         [(''accounts'', JObject
           [(''max_featured_tags'', JNumber ''10'')]),
          (''statuses'', JObject
           [(''max_characters'', JNumber ''500'')])]),
        (''stats'', JObject
         [(''user_count'', JNumber ''1''),
          (''status_count'', JNumber ''2''),
          (''domain_count'', JNumber ''3'')])]"

definition body_TestGetInstanceActivity :: json where
  "body_TestGetInstanceActivity =
     JArray [JObject
       [(''week'', JString ''1516579200''),
        (''statuses'', JString ''1''),
        (''logins'', JString ''1''),
        (''registrations'', JString ''0'')]]"

definition body_TestGetInstancePeers :: json where
  "body_TestGetInstancePeers =
     JArray [JString ''mastodon.social'', JString ''mstdn.jp'']"

text \<open>The records these bodies decode to, with the sample parameters.\<close>

definition instance_TestGetInstance :: "(Account_sample, json) Instance" where
  "instance_TestGetInstance =
     \<lparr>URI = ''http://mstdn.example.com'', Title = ''mastodon'',
      Description = ''test mastodon'', EMail = ''mstdn@mstdn.example.com'',
      Version = [], Thumbnail = [], URLs = None, Stats = None, Languages = None,
      ContactAccount = Some \<lparr>Username = ''mattn''\<rparr>, Configuration = None\<rparr>"

definition instance_TestGetInstanceMore :: "(Account_sample, json) Instance" where
  "instance_TestGetInstanceMore =
     \<lparr>URI = ''http://mstdn.example.com'', Title = ''mastodon'',
      Description = ''test mastodon'', EMail = ''mstdn@mstdn.example.com'',
      Version = ''0.0.1'', Thumbnail = ''http://mstdn.example.com/logo.png'',
      URLs = Some (fmupd ''bar'' ''http://stream2.example.com''
                    (fmupd ''foo'' ''http://stream1.example.com'' fmempty)),
      Stats = Some \<lparr>UserCount = 1, StatusCount = 2, DomainCount = 3\<rparr>,
      Languages = None, ContactAccount = None,
      Configuration =
        Some \<lparr>InstanceConfig.Accounts =
                 Some (Some (fmupd ''max_featured_tags'' (Some (JNumber ''10'')) fmempty)),
               InstanceConfig.Statuses =
                 Some (Some (fmupd ''max_characters'' (Some (JNumber ''500'')) fmempty)),
               InstanceConfig.MediaAttachments = None, InstanceConfig.Polls = None\<rparr>\<rparr>"

definition instance_TestGetInstanceV2 :: "(Account_sample, json) InstanceV2" where
  "instance_TestGetInstanceV2 =
     \<lparr>Domain = ''mastodon.social'', Title = ''Mastodon'', Version = ''4.0.0rc1'',
      SourceURL = ''https://github.com/mastodon/mastodon'',
      Description = ''The original server operated by the Mastodon gGmbH non-profit'',
      Usage = \<lparr>Users = \<lparr>ActiveMonth = 123122\<rparr>\<rparr>,
      Thumbnail =
        \<lparr>URL = ''https://files.mastodon.social/site_uploads/files/000/000/001/@1x/57c12f441d083cde.png'',
         Blurhash = Some (JString ''UeKUpFxuo~R%0nW;WCnhF6RjaJt757oJodS$''),
         Versions =
           \<lparr>One_X = Some (JString ''https://files.mastodon.social/site_uploads/files/000/000/001/@1x/57c12f441d083cde.png''),
            Two_X = Some (JString ''https://files.mastodon.social/site_uploads/files/000/000/001/@2x/57c12f441d083cde.png'')\<rparr>\<rparr>,
      Languages = Some [''en''],
      Configuration =
        \<lparr>Urls = \<lparr>Streaming = ''wss://mastodon.social''\<rparr>,
         Accounts = \<lparr>MaxFeaturedTags = 10\<rparr>,
         Statuses = \<lparr>MaxCharacters = 500, MaxMediaAttachments = 4,
                     CharactersReservedPerURL = 23\<rparr>,
         MediaAttachments =
           \<lparr>SupportedMimeTypes = Some [''image/jpeg'', ''image/png''],
            ImageSizeLimit = 10485760, ImageMatrixLimit = 16777216,
            VideoSizeLimit = 41943040, VideoFrameRateLimit = 60,
            VideoMatrixLimit = 2304000\<rparr>,
         Polls = \<lparr>MaxOptions = 4, MaxCharactersPerOption = 50, MinExpiration = 300,
                  MaxExpiration = 2629746\<rparr>,
         Translation = \<lparr>V2_Configuration_Translation.Enabled = True\<rparr>\<rparr>,
      Registrations = \<lparr>V2_Registrations.Enabled = False, ApprovalRequired = False,
                       Message = None\<rparr>,
      Contact = \<lparr>Email = ''staff@mastodon.social'',
                 Account = Some \<lparr>Username = ''Gargron''\<rparr>\<rparr>,
      Rules = Some [\<lparr>ID = ''1'', Text = ''Behave''\<rparr>, \<lparr>ID = ''2'', Text = ''Be nice''\<rparr>]\<rparr>"

section \<open>Facts about the decoders and encoders\<close>

lemma doAPI_spec_test_server_first:
  "doAPI_spec (test_server body) dec c ctx m u p res pg True
     = ((Some (StatusError 500), res), False)"
  by (simp add: doAPI_spec_def test_server_def)

lemma doAPI_spec_test_server_later:
  "doAPI_spec (test_server body) dec c ctx m u p res pg False
     = (case dec body res of
          Inl e \<Rightarrow> ((Some e, res), False)
        | Inr res' \<Rightarrow> ((None, res'), False))"
  by (simp add: doAPI_spec_def test_server_def)

lemmas scalar_defs = dec_string_def dec_bool_def dec_int_def dec_int_quoted_def
  dec_Unixtime_def ParseInt_def parse_digits_def is_digit_def
  digit_val_def

lemmas shape_defs = dec_struct_def dec_slice_def dec_ptr_def dec_map_def dec_iface_def store_def
  names_def

lemma doAPI_spec_ok:
  "http c ctx m u p w = (Reply st (Some j), w') \<Longrightarrow> 200 \<le> st \<Longrightarrow> st < 300
     \<Longrightarrow> doAPI_spec http dec c ctx m u p res pg w
         = (case dec j res of Inl e \<Rightarrow> ((Some e, res), w') | Inr res' \<Rightarrow> ((None, res'), w'))"
  by (simp add: doAPI_spec_def)

lemma GetInstancePeers_spec:
  "http c ctx MethodGet ''/api/v1/instance/peers'' None w = (Reply st (Some j), w')
     \<Longrightarrow> 200 \<le> st \<Longrightarrow> st < 300
     \<Longrightarrow> GetInstancePeers (doAPI_spec http dec) c ctx w
         = (case dec j None of
              Inl e \<Rightarrow> ((None, Some e), w') | Inr r \<Rightarrow> ((r, None), w'))"
  by (simp add: GetInstancePeers_def doAPI_spec_ok split: sum.split)

lemma GetInstanceActivity_spec:
  "http c ctx MethodGet ''/api/v1/instance/activity'' None w = (Reply st (Some j), w')
     \<Longrightarrow> 200 \<le> st \<Longrightarrow> st < 300
     \<Longrightarrow> GetInstanceActivity (doAPI_spec http dec) c ctx w
         = (case dec j None of
              Inl e \<Rightarrow> ((None, Some e), w') | Inr r \<Rightarrow> ((r, None), w'))"
  by (simp add: GetInstanceActivity_def doAPI_spec_ok split: sum.split)

lemma dec_elems_nth:
  "dec_elems dec z [] js = Inr xs
     \<Longrightarrow> length xs = length js \<and> (\<forall>i<length js. dec (js ! i) z = Inr (xs ! i))"
proof (induction js arbitrary: xs)
  case Nil
  then show ?case by simp
next
  case (Cons j js)
  from Cons.prems obtain x xs' where x: "dec j z = Inr x"
    and xs': "dec_elems dec z [] js = Inr xs'" and xs: "xs = x # xs'"
    by (auto simp: store_def split: sum.splits)
  from Cons.IH [OF xs'] have len: "length xs' = length js"
    and nth: "\<forall>i<length js. dec (js ! i) z = Inr (xs' ! i)" by simp_all
  show ?case
  proof (intro conjI allI impI)
    show "length xs = length (j # js)" using len xs by simp
  next
    fix i assume "i < length (j # js)"
    then show "dec ((j # js) ! i) z = Inr (xs ! i)"
      using x nth xs by (cases i) simp_all
  qed
qed

lemma dec_elems_strings: "dec_elems dec_string [] old (map JString ps) = Inr ps"
  by (induction ps arbitrary: old) (simp_all add: dec_string_def store_def)

text \<open>When the key of a slice comes again, the elements the slice has are decoded into:
  \<^verbatim>\<open>null\<close> leaves the first string as it is, and the slice ends with the array.\<close>

lemma dec_slice_reuses_elements:
  "dec_slice dec_string [] (JArray [JNull]) (Some [''a'', ''b'']) = Inr (Some [''a''])"
  by (simp add: dec_slice_def dec_string_def store_def)










lemmas field_defs = Instance_field_def InstanceConfig_field_def InstanceStats_field_def
  InstanceV2_field_def V2_Usage_Users_field_def V2_Usage_field_def V2_Thumbnail_Versions_field_def
  V2_Thumbnail_field_def V2_Configuration_Urls_field_def V2_Configuration_Accounts_field_def
  V2_Configuration_Statuses_field_def V2_Configuration_MediaAttachments_field_def
  V2_Configuration_Polls_field_def V2_Configuration_Translation_field_def V2_Configuration_field_def
  V2_Registrations_field_def V2_Contact_field_def Rule_field_def WeeklyActivity_field_def
  Account_sample_field_def

lemmas zero_defs = Instance_zero_def InstanceV2_zero_def InstanceConfig_zero_def
  InstanceStats_zero_def Rule_zero_def WeeklyActivity_zero_def

lemma dec_body_TestGetInstance:
  "dec_Instance sample body_TestGetInstance Instance_zero = Inr instance_TestGetInstance"
  by (simp add: dec_Instance_def body_TestGetInstance_def instance_TestGetInstance_def
        sample_def field_defs zero_defs scalar_defs shape_defs)

lemma dec_body_TestGetInstanceMore:
  "dec_Instance sample body_TestGetInstanceMore Instance_zero = Inr instance_TestGetInstanceMore"
  by (simp add: dec_Instance_def body_TestGetInstanceMore_def instance_TestGetInstanceMore_def
        sample_def field_defs zero_defs scalar_defs shape_defs)

lemma dec_body_TestGetInstanceV2:
  "dec_InstanceV2 sample body_TestGetInstanceV2 InstanceV2_zero = Inr instance_TestGetInstanceV2"
  by (simp add: dec_InstanceV2_def body_TestGetInstanceV2_def contact_TestGetInstanceV2_def
        account_TestGetInstanceV2_def instance_TestGetInstanceV2_def
        sample_def field_defs zero_defs scalar_defs shape_defs)

text \<open>Fixed points of the calendar: the epoch, the zero value of \<^verbatim>\<open>time.Time\<close>, a leap
  day and the turn of a year.\<close>

lemma calendar_checks:
  "Date 1970 1 1 0 0 0 = Unix 0"
  "Date 1 1 1 0 0 0 = Unix (- 62135596800)"
  "days_from_civil 2000 3 1 - days_from_civil 2000 2 28 = 2"
  "days_from_civil 1900 3 1 - days_from_civil 1900 2 28 = 1"
  "days_from_civil 2018 1 1 - days_from_civil 2017 12 31 = 1"
  "Date 2001 9 9 1 46 40 = Unix 1000000000"
  by (simp_all add: Date_def days_from_civil_def)

text \<open>\<^const>\<open>lower\<close> adds 32 to the code of an ASCII capital.\<close>

lemma lower_code: "of_char (lower c) =
  (if CHR ''A'' \<le> c \<and> c \<le> CHR ''Z'' then of_char c + (32::nat) else of_char c)"
  by (cases c) (auto simp: less_eq_char_def)











text \<open>A counter written with a plus sign is stored.\<close>

lemma plus_sign_counter: "dec_int_quoted (JString ''+1'') old = Inr 1"
  by (simp add: dec_int_quoted_def ParseInt_def parse_digits_def is_digit_def digit_val_def)

lemma digit_char_digit:
  assumes "d < 10"
  shows "is_digit (digit_char d)" and "digit_val (digit_char d) = d"
proof -
  from assms have "d \<in> {0, 1, 2, 3, 4, 5, 6, 7, 8, 9}" by auto
  then show "is_digit (digit_char d)" and "digit_val (digit_char d) = d"
    by (auto simp: digit_char_def is_digit_def digit_val_def)
qed

lemma digits_nonempty: "digits n \<noteq> []"
  by (subst digits.simps) simp

lemma digits_all_digit: "list_all is_digit (digits n)"
proof (induction n rule: digits.induct)
  case (1 n)
  show ?case
  proof (cases "n < 10")
    case True
    then show ?thesis by (subst digits.simps) (simp add: digit_char_digit)
  next
    case False
    with "1.IH" have "list_all is_digit (digits (n div 10))" by simp
    moreover have "is_digit (digit_char (n mod 10))" by (simp add: digit_char_digit)
    ultimately show ?thesis using False by (subst digits.simps) simp
  qed
qed

lemma digits_value: "foldl (\<lambda>a c. 10 * a + digit_val c) 0 (digits n) = n"
proof (induction n rule: digits.induct)
  case (1 n)
  show ?case
  proof (cases "n < 10")
    case True
    then show ?thesis by (subst digits.simps) (simp add: digit_char_digit)
  next
    case False
    with "1.IH" have "foldl (\<lambda>a c. 10 * a + digit_val c) 0 (digits (n div 10)) = n div 10"
      by simp
    then show ?thesis using False by (subst digits.simps) (simp add: digit_char_digit)
  qed
qed

lemma parse_digits_digits: "parse_digits (digits n) = Some n"
  by (simp add: parse_digits_def digits_nonempty digits_all_digit digits_value)

lemma digits_head: "\<exists>c cs. digits n = c # cs \<and> c \<noteq> CHR ''-'' \<and> c \<noteq> CHR ''+''"
proof -
  obtain c cs where d: "digits n = c # cs" using digits_nonempty [of n] by (cases "digits n") auto
  with digits_all_digit [of n] have "is_digit c" by simp
  then have "c \<noteq> CHR ''-'' \<and> c \<noteq> CHR ''+''" by (auto simp: is_digit_def)
  with d show ?thesis by blast
qed

lemma ParseInt_FormatInt:
  assumes "- (2 ^ 63) \<le> i" and "i < 2 ^ 63"
  shows "ParseInt (FormatInt i) = Some i"
proof (cases "i < 0")
  case True
  with assms(1) have "nat (- i) \<le> 2 ^ 63" by (simp add: nat_le_iff)
  with True show ?thesis
    by (simp add: FormatInt_def ParseInt_def parse_digits_digits)
next
  case False
  obtain c cs where d: "digits (nat i) = c # cs" and c: "c \<noteq> CHR ''-''" "c \<noteq> CHR ''+''"
    using digits_head by blast
  from parse_digits_digits [of "nat i"] d have p: "parse_digits (c # cs) = Some (nat i)" by simp
  from assms(2) False have "nat i < 2 ^ 63" by (simp add: nat_less_iff)
  with False d c p show ?thesis by (simp add: FormatInt_def ParseInt_def)
qed

lemma dec_int_enc_int: "dec_int (enc_int w) old = Inr w"
proof -
  have "- (2 ^ 63) \<le> sint w" and "sint w < 2 ^ 63"
    using sint_ge [of w] sint_lt [of w] by simp_all
  then show ?thesis by (simp add: dec_int_def enc_int_def ParseInt_FormatInt)
qed

lemma dec_members_append:
  "dec_members field (xs @ ys) r
     = (case dec_members field xs r of Inl e \<Rightarrow> Inl e | Inr r' \<Rightarrow> dec_members field ys r')"
proof (induction xs arbitrary: r)
  case Nil
  show ?case by simp
next
  case (Cons a xs)
  obtain k v where a: "a = (k, v)" by (cases a)
  show ?case
  proof (cases "field k v r")
    case (Inl e)
    with a show ?thesis by simp
  next
    case (Inr r1)
    with a Cons.IH [of r1] show ?thesis by simp
  qed
qed

lemma names_refl: "names k k"
  by (simp add: names_def)

lemma InstanceStats_round_trip:
  "dec_struct InstanceStats_field (enc_InstanceStats r) old = Inr r"
proof -
  have n: "\<not> names ''status_count'' ''user_count''" "\<not> names ''domain_count'' ''user_count''"
    "\<not> names ''domain_count'' ''status_count''"
    by (simp_all add: names_def)
  show ?thesis
    by (simp add: dec_struct_def enc_InstanceStats_def InstanceStats_field_def names_refl n
        store_def dec_int_enc_int)
qed

lemma dec_entries_round_trip:
  assumes "\<forall>(k, x) \<in> set kvs. dec (enc x) zero = Inr x" and "distinct (map fst kvs)"
  shows "\<exists>m'. dec_entries dec zero (map (\<lambda>(k, x). (k, enc x)) kvs) m = Inr m'
           \<and> (\<forall>k. fmlookup m' k
                  = (case map_of kvs k of Some x \<Rightarrow> Some x | None \<Rightarrow> fmlookup m k))"
  using assms
proof (induction kvs arbitrary: m)
  case Nil
  then show ?case by simp
next
  case (Cons a kvs)
  obtain k x where a: "a = (k, x)" by (cases a)
  from Cons.prems a have x: "dec (enc x) zero = Inr x"
    and rest: "\<forall>(k, x) \<in> set kvs. dec (enc x) zero = Inr x"
    and dist: "distinct (map fst kvs)" and fresh: "map_of kvs k = None"
    by (auto simp: map_of_eq_None_iff)
  from Cons.IH [OF rest dist, of "fmupd k x m"] obtain m'
    where m': "dec_entries dec zero (map (\<lambda>(k, x). (k, enc x)) kvs) (fmupd k x m) = Inr m'"
      and look: "\<forall>k'. fmlookup m' k'
          = (case map_of kvs k' of Some x \<Rightarrow> Some x | None \<Rightarrow> fmlookup (fmupd k x m) k')"
    by blast
  have "\<forall>k'. fmlookup m' k'
          = (case map_of (a # kvs) k' of Some x \<Rightarrow> Some x | None \<Rightarrow> fmlookup m k')"
    using look fresh a by (auto split: option.splits)
  with m' x a show ?case by simp
qed

lemma distinct_sorted_list_of_fset: "distinct (sorted_list_of_fset S)"
  by (simp add: sorted_list_of_fset.rep_eq)

lemma sorted_list_of_fmap_keys: "map fst (sorted_list_of_fmap fm) = sorted_list_of_fset (fmdom fm)"
  by (simp add: sorted_list_of_fmap_def comp_def)

lemma sorted_list_of_fmap_member:
  "(k, x) \<in> set (sorted_list_of_fmap fm) \<Longrightarrow> fmlookup fm k = Some x"
  by (auto simp: sorted_list_of_fmap_def fmlookup_dom_iff)

lemma dec_map_round_trip:
  assumes "\<forall>k x. fmlookup fm k = Some x \<longrightarrow> dec (enc x) zero = Inr x"
  shows "dec_map dec zero (enc_map enc (Some fm)) None = Inr (Some fm)"
proof -
  let ?kvs = "sorted_list_of_fmap fm"
  have d: "distinct (map fst ?kvs)"
    by (simp add: sorted_list_of_fmap_keys distinct_sorted_list_of_fset)
  have r: "\<forall>(k, x) \<in> set ?kvs. dec (enc x) zero = Inr x"
    using assms sorted_list_of_fmap_member by fastforce
  from dec_entries_round_trip
         [where dec = dec and enc = enc and zero = zero and kvs = "?kvs" and m = fmempty, OF r d]
  obtain m'
    where m': "dec_entries dec zero (map (\<lambda>(k, x). (k, enc x)) ?kvs) fmempty = Inr m'"
      and look: "\<forall>k. fmlookup m' k
          = (case map_of ?kvs k of Some x \<Rightarrow> Some x | None \<Rightarrow> fmlookup fmempty k)"
    by blast
  have "m' = fm"
  proof (rule fmap_ext)
    fix k show "fmlookup m' k = fmlookup fm k"
      using look by (simp split: option.splits)
  qed
  with m' show ?thesis by (simp add: dec_map_def enc_map_def store_def)
qed

lemma dec_map_nil: "dec_map dec zero (enc_map enc None) old = Inr None"
  by (simp add: dec_map_def enc_map_def)

lemma enc_map_Some_not_null: "enc_map enc (Some fm) \<noteq> JNull"
  by (simp add: enc_map_def)

lemma dec_iface_round_trip:
  "value_ok P x \<Longrightarrow> dec_iface (dec_any P) (enc_iface (enc_any P) x) old = Inr x"
  by (cases x) (auto simp: value_ok_def dec_iface_def enc_iface_def store_def split: json.splits)

lemma config_map_round_trip:
  assumes "map_ok P m"
  shows "dec_map (dec_iface (dec_any P)) None (enc_map (enc_iface (enc_any P)) m) None = Inr m"
proof (cases m)
  case None
  then show ?thesis by (simp add: dec_map_nil)
next
  case (Some fm)
  with assms have "\<forall>k x. fmlookup fm k = Some x
      \<longrightarrow> dec_iface (dec_any P) (enc_iface (enc_any P) x) None = Inr x"
    by (auto simp: map_ok_def dec_iface_round_trip)
  with Some show ?thesis by (simp add: dec_map_round_trip)
qed

lemma config_ptr_map_round_trip:
  assumes "ptr_map_ok P p"
  shows "dec_ptr (dec_map (dec_iface (dec_any P)) None) None
           (enc_ptr (enc_map (enc_iface (enc_any P))) p) None = Inr p"
proof (cases p)
  case None
  then show ?thesis by (simp add: dec_ptr_def enc_ptr_def)
next
  case (Some m)
  with assms obtain fm where m: "m = Some fm" and ok: "map_ok P m"
    by (auto simp: ptr_map_ok_def)
  from config_map_round_trip [OF ok] m Some enc_map_Some_not_null [of "enc_iface (enc_any P)" fm]
  show ?thesis
    by (cases "enc_map (enc_iface (enc_any P)) (Some fm)")
       (simp_all add: dec_ptr_def enc_ptr_def store_def)
qed

lemma InstanceConfig_field_steps:
  "InstanceConfig_field P ''accounts'' v r
     = store (dec_ptr (dec_map (dec_iface (dec_any P)) None) None v (InstanceConfig.Accounts r))
         (\<lambda>x. r\<lparr>InstanceConfig.Accounts := x\<rparr>)"
  "InstanceConfig_field P ''statuses'' v r
     = store (dec_ptr (dec_map (dec_iface (dec_any P)) None) None v (InstanceConfig.Statuses r))
         (\<lambda>x. r\<lparr>InstanceConfig.Statuses := x\<rparr>)"
  "InstanceConfig_field P ''media_attachments'' v r
     = store (dec_map (dec_iface (dec_any P)) None v (InstanceConfig.MediaAttachments r))
         (\<lambda>x. r\<lparr>InstanceConfig.MediaAttachments := x\<rparr>)"
  "InstanceConfig_field P ''polls'' v r
     = store (dec_ptr (dec_map (dec_iface (dec_any P)) None) None v (InstanceConfig.Polls r))
         (\<lambda>x. r\<lparr>InstanceConfig.Polls := x\<rparr>)"
  by (simp_all add: InstanceConfig_field_def names_def)

lemma InstanceConfig_round_trip:
  assumes "config_ok P c"
  shows "dec_struct (InstanceConfig_field P) (enc_InstanceConfig P c) InstanceConfig_zero = Inr c"
proof -
  from assms have "ptr_map_ok P (InstanceConfig.Accounts c)"
    and "ptr_map_ok P (InstanceConfig.Statuses c)"
    and "map_ok P (InstanceConfig.MediaAttachments c)"
    and "ptr_map_ok P (InstanceConfig.Polls c)"
    by (simp_all add: config_ok_def)
  then show ?thesis
    by (cases c)
       (simp add: dec_struct_def enc_InstanceConfig_def InstanceConfig_field_steps
          InstanceConfig_zero_def store_def config_ptr_map_round_trip config_map_round_trip)
qed

lemma Instance_field_steps:
  "Instance_field P ''uri'' v r = store (dec_string v (URI r)) (\<lambda>x. r\<lparr>URI := x\<rparr>)"
  "Instance_field P ''title'' v r
     = store (dec_string v (Instance.Title r)) (\<lambda>x. r\<lparr>Instance.Title := x\<rparr>)"
  "Instance_field P ''description'' v r
     = store (dec_string v (Instance.Description r)) (\<lambda>x. r\<lparr>Instance.Description := x\<rparr>)"
  "Instance_field P ''email'' v r = store (dec_string v (EMail r)) (\<lambda>x. r\<lparr>EMail := x\<rparr>)"
  "Instance_field P ''version'' v r
     = store (dec_string v (Instance.Version r)) (\<lambda>x. r\<lparr>Instance.Version := x\<rparr>)"
  "Instance_field P ''thumbnail'' v r
     = store (dec_string v (Instance.Thumbnail r)) (\<lambda>x. r\<lparr>Instance.Thumbnail := x\<rparr>)"
  "Instance_field P ''urls'' v r
     = store (dec_map dec_string [] v (URLs r)) (\<lambda>x. r\<lparr>URLs := x\<rparr>)"
  "Instance_field P ''stats'' v r
     = store (dec_ptr (dec_struct InstanceStats_field) InstanceStats_zero v (Stats r))
         (\<lambda>x. r\<lparr>Stats := x\<rparr>)"
  "Instance_field P ''languages'' v r
     = store (dec_slice dec_string [] v (Instance.Languages r))
         (\<lambda>x. r\<lparr>Instance.Languages := x\<rparr>)"
  "Instance_field P ''contact_account'' v r
     = store (dec_ptr (dec_Account P) (Account_zero P) v (ContactAccount r))
         (\<lambda>x. r\<lparr>ContactAccount := x\<rparr>)"
  "Instance_field P ''configuration'' v r
     = store (dec_ptr (dec_struct (InstanceConfig_field P)) InstanceConfig_zero v
                (Instance.Configuration r))
         (\<lambda>x. r\<lparr>Instance.Configuration := x\<rparr>)"
  by (simp_all add: Instance_field_def names_def)

lemma strings_round_trip: "dec_slice dec_string [] (enc_slice JString s) old = Inr s"
  by (cases s) (simp_all add: dec_slice_def enc_slice_def dec_elems_strings store_def)

lemma urls_round_trip: "dec_map dec_string [] (enc_map JString m) None = Inr m"
proof (cases m)
  case None
  then show ?thesis by (simp add: dec_map_nil)
next
  case (Some fm)
  have "\<forall>k x. fmlookup fm k = Some x \<longrightarrow> dec_string (JString x) [] = Inr x"
    by (simp add: dec_string_def)
  with Some show ?thesis by (simp add: dec_map_round_trip)
qed

lemma stats_round_trip:
  "dec_ptr (dec_struct InstanceStats_field) InstanceStats_zero (enc_ptr enc_InstanceStats p) None
     = Inr p"
proof (cases p)
  case None
  then show ?thesis by (simp add: dec_ptr_def enc_ptr_def)
next
  case (Some st)
  have "enc_InstanceStats st \<noteq> JNull" by (simp add: enc_InstanceStats_def)
  with Some InstanceStats_round_trip [of st InstanceStats_zero] show ?thesis
    by (cases "enc_InstanceStats st") (simp_all add: dec_ptr_def enc_ptr_def store_def)
qed

lemma account_round_trip:
  assumes "lossless P" and "case p of None \<Rightarrow> True | Some a \<Rightarrow> decoded_Account P a"
  shows "dec_ptr (dec_Account P) (Account_zero P) (enc_ptr (enc_Account P) p) None = Inr p"
proof (cases p)
  case None
  then show ?thesis by (simp add: dec_ptr_def enc_ptr_def)
next
  case (Some a)
  with assms(2) have "decoded_Account P a" by simp
  with assms(1) have "enc_Account P a \<noteq> JNull"
    and "dec_Account P (enc_Account P a) (Account_zero P) = Inr a"
    unfolding lossless_def by blast+
  with Some show ?thesis
    by (cases "enc_Account P a") (simp_all add: dec_ptr_def enc_ptr_def store_def)
qed

lemma configuration_round_trip:
  assumes "case p of None \<Rightarrow> True | Some c \<Rightarrow> config_ok P c"
  shows "dec_ptr (dec_struct (InstanceConfig_field P)) InstanceConfig_zero
           (enc_ptr (enc_InstanceConfig P) p) None = Inr p"
proof (cases p)
  case None
  then show ?thesis by (simp add: dec_ptr_def enc_ptr_def)
next
  case (Some c)
  with assms have ok: "config_ok P c" by simp
  have "enc_InstanceConfig P c \<noteq> JNull" by (simp add: enc_InstanceConfig_def)
  with Some InstanceConfig_round_trip [OF ok] show ?thesis
    by (cases "enc_InstanceConfig P c") (simp_all add: dec_ptr_def enc_ptr_def store_def)
qed

lemma Instance_round_trip:
  assumes "lossless P" and "instance_ok P i"
  shows "dec_Instance P (enc_Instance P i) Instance_zero
           = Inr (i\<lparr>URLs := (if URLs i = Some fmempty then None else URLs i)\<rparr>)"
proof -
  from assms(2)
  have a: "case ContactAccount i of None \<Rightarrow> True | Some a \<Rightarrow> decoded_Account P a"
    and c: "case Instance.Configuration i of None \<Rightarrow> True | Some c \<Rightarrow> config_ok P c"
    by (simp_all add: instance_ok_def)
  show ?thesis
    using account_round_trip [OF assms(1) a] configuration_round_trip [OF c]
    by (cases i)
       (simp add: dec_Instance_def dec_struct_def enc_Instance_def dec_members_append
          Instance_field_steps Instance_zero_def store_def dec_string_def
          strings_round_trip urls_round_trip stats_round_trip)
qed

lemma dec_members_invariant:
  assumes "dec_members field ms r0 = Inr r" and "Q r0"
    and "\<forall>k v r r'. Q r \<longrightarrow> field k v r = Inr r' \<longrightarrow> Q r'"
  shows "Q r"
  using assms(1,2)
proof (induction ms arbitrary: r0)
  case Nil
  then show ?case by simp
next
  case (Cons a ms)
  obtain k v where a: "a = (k, v)" by (cases a)
  from Cons.prems(1) a obtain r1 where r1: "field k v r0 = Inr r1"
    and tl: "dec_members field ms r1 = Inr r"
    by (auto split: sum.splits)
  from assms(3) Cons.prems(2) r1 have "Q r1" by blast
  with Cons.IH [OF tl] show ?case by simp
qed

lemma dec_entries_invariant:
  assumes "dec_entries dec zero ms m = Inr m'"
    and "\<forall>k x. fmlookup m k = Some x \<longrightarrow> Q x"
    and "\<forall>v x. dec v zero = Inr x \<longrightarrow> Q x"
  shows "\<forall>k x. fmlookup m' k = Some x \<longrightarrow> Q x"
  using assms(1,2)
proof (induction ms arbitrary: m)
  case Nil
  then show ?case by simp
next
  case (Cons a ms)
  obtain k v where a: "a = (k, v)" by (cases a)
  from Cons.prems(1) a obtain x where x: "dec v zero = Inr x"
    and tl: "dec_entries dec zero ms (fmupd k x m) = Inr m'"
    by (auto split: sum.splits)
  from assms(3) x have "Q x" by blast
  with Cons.prems(2) have "\<forall>k' x'. fmlookup (fmupd k x m) k' = Some x' \<longrightarrow> Q x'" by simp
  with Cons.IH [OF tl] show ?case by simp
qed

lemma dec_iface_ok:
  assumes "lossless P" and "dec_iface (dec_any P) v old = Inr x"
  shows "value_ok P x"
proof (cases "v = JNull")
  case True
  with assms(2) show ?thesis by (simp add: dec_iface_def value_ok_def)
next
  case False
  with assms(2) obtain y where y: "dec_any P v = Inr y" and x: "x = Some y"
    by (cases v) (auto simp: dec_iface_def store_def split: sum.splits)
  from assms(1) False y have "enc_any P y \<noteq> JNull \<and> dec_any P (enc_any P y) = Inr y"
    unfolding lossless_def by blast
  with x show ?thesis by (simp add: value_ok_def)
qed

lemma dec_map_ok:
  assumes "lossless P" and "map_ok P old"
    and "dec_map (dec_iface (dec_any P)) None v old = Inr m"
  shows "map_ok P m \<and> (v \<noteq> JNull \<longrightarrow> m \<noteq> None)"
proof (cases v)
  case JNull
  with assms(3) show ?thesis by (simp add: dec_map_def map_ok_def)
next
  case (JObject ms)
  let ?m0 = "case old of None \<Rightarrow> fmempty | Some m \<Rightarrow> m"
  from assms(3) JObject obtain fm
    where fm: "dec_entries (dec_iface (dec_any P)) None ms ?m0 = Inr fm" and m: "m = Some fm"
    by (auto simp: dec_map_def store_def split: sum.splits)
  have "\<forall>k x. fmlookup ?m0 k = Some x \<longrightarrow> value_ok P x"
    using assms(2) by (cases old) (simp_all add: map_ok_def)
  moreover have "\<forall>v x. dec_iface (dec_any P) v None = Inr x \<longrightarrow> value_ok P x"
    using dec_iface_ok [OF assms(1)] by blast
  ultimately have "\<forall>k x. fmlookup fm k = Some x \<longrightarrow> value_ok P x"
    by (rule dec_entries_invariant [OF fm])
  with m show ?thesis by (simp add: map_ok_def)
qed (use assms(3) in \<open>simp_all add: dec_map_def\<close>)

lemma dec_ptr_map_ok:
  assumes "lossless P" and "ptr_map_ok P old"
    and "dec_ptr (dec_map (dec_iface (dec_any P)) None) None v old = Inr p"
  shows "ptr_map_ok P p"
proof (cases "v = JNull")
  case True
  with assms(3) show ?thesis by (simp add: dec_ptr_def ptr_map_ok_def)
next
  case False
  let ?m0 = "case old of None \<Rightarrow> None | Some m \<Rightarrow> m"
  from assms(3) False obtain m
    where m: "dec_map (dec_iface (dec_any P)) None v ?m0 = Inr m" and p: "p = Some m"
    by (cases v) (auto simp: dec_ptr_def store_def split: sum.splits)
  have "map_ok P ?m0" using assms(2) by (cases old) (simp_all add: ptr_map_ok_def map_ok_def)
  from dec_map_ok [OF assms(1) this m] False p show ?thesis by (simp add: ptr_map_ok_def)
qed

lemma InstanceConfig_field_ok:
  assumes "lossless P" and "config_ok P r" and "InstanceConfig_field P k v r = Inr r'"
  shows "config_ok P r'"
  using assms(2,3) dec_ptr_map_ok [OF assms(1)] dec_map_ok [OF assms(1)]
  by (auto simp: InstanceConfig_field_def config_ok_def store_def split: if_splits sum.splits)

lemma dec_InstanceConfig_ok:
  assumes "lossless P" and "config_ok P c0"
    and "dec_struct (InstanceConfig_field P) v c0 = Inr c"
  shows "config_ok P c"
proof (cases v)
  case JNull
  with assms(2,3) show ?thesis by (simp add: dec_struct_def)
next
  case (JObject ms)
  with assms(3) have m: "dec_members (InstanceConfig_field P) ms c0 = Inr c"
    by (simp add: dec_struct_def)
  show ?thesis
    using InstanceConfig_field_ok [OF assms(1)]
    by (intro dec_members_invariant [where Q = "config_ok P", OF m assms(2)]) blast
qed (use assms(3) in \<open>simp_all add: dec_struct_def\<close>)

lemma config_zero_ok: "config_ok P InstanceConfig_zero"
  by (simp add: config_ok_def InstanceConfig_zero_def ptr_map_ok_def map_ok_def)

lemma Instance_field_ok:
  assumes "lossless P" and "instance_ok P r" and "Instance_field P k v r = Inr r'"
  shows "instance_ok P r'"
proof -
  have acc: "case x of None \<Rightarrow> True | Some a \<Rightarrow> decoded_Account P a"
    if "dec_ptr (dec_Account P) (Account_zero P) v (ContactAccount r) = Inr x" for x
  proof (cases "v = JNull")
    case True
    with that show ?thesis by (simp add: dec_ptr_def)
  next
    case False
    let ?a0 = "case ContactAccount r of None \<Rightarrow> Account_zero P | Some a \<Rightarrow> a"
    from that False obtain a where a: "dec_Account P v ?a0 = Inr a" and x: "x = Some a"
      by (cases v) (auto simp: dec_ptr_def store_def split: sum.splits)
    have "decoded_Account P a"
    proof (cases "ContactAccount r")
      case None
      with a False show ?thesis by (simp add: decoded_Account.fresh)
    next
      case (Some a0)
      with assms(2) have "decoded_Account P a0" by (simp add: instance_ok_def)
      with a Some False show ?thesis by (simp add: decoded_Account.again [of P a0 v a])
    qed
    with x show ?thesis by simp
  qed
  have cfg: "case x of None \<Rightarrow> True | Some c \<Rightarrow> config_ok P c"
    if "dec_ptr (dec_struct (InstanceConfig_field P)) InstanceConfig_zero v
          (Instance.Configuration r) = Inr x" for x
  proof (cases "v = JNull")
    case True
    with that show ?thesis by (simp add: dec_ptr_def)
  next
    case False
    let ?c0 = "case Instance.Configuration r of None \<Rightarrow> InstanceConfig_zero | Some c \<Rightarrow> c"
    from that False obtain c where c: "dec_struct (InstanceConfig_field P) v ?c0 = Inr c"
      and x: "x = Some c"
      by (cases v) (auto simp: dec_ptr_def store_def split: sum.splits)
    have "config_ok P ?c0"
      using assms(2) config_zero_ok [of P]
      by (cases "Instance.Configuration r") (simp_all add: instance_ok_def)
    from dec_InstanceConfig_ok [OF assms(1) this c] x show ?thesis by simp
  qed
  from assms(2,3) acc cfg show ?thesis
    by (auto simp: Instance_field_def instance_ok_def store_def split: if_splits sum.splits)
qed

lemma decoded_Instance_ok:
  assumes "lossless P" and "dec_Instance P j Instance_zero = Inr i"
  shows "instance_ok P i"
proof (cases j)
  case JNull
  with assms(2) show ?thesis
    by (auto simp: dec_Instance_def dec_struct_def instance_ok_def Instance_zero_def)
next
  case (JObject ms)
  with assms(2) have m: "dec_members (Instance_field P) ms Instance_zero = Inr i"
    by (simp add: dec_Instance_def dec_struct_def)
  have z: "instance_ok P (Instance_zero :: ('a, 'b) Instance)"
    by (simp add: instance_ok_def Instance_zero_def)
  show ?thesis
    using Instance_field_ok [OF assms(1)]
    by (intro dec_members_invariant [where Q = "instance_ok P", OF m z]) blast
qed (use assms(2) in \<open>simp_all add: dec_Instance_def dec_struct_def\<close>)

lemma lossless_sample: "lossless sample"
proof -
  have "dec_Account sample (enc_Account sample a) (Account_zero sample) = Inr a" for a
    by (cases a)
       (simp add: sample_def dec_struct_def Account_sample_field_def names_def store_def
          dec_string_def)
  then show ?thesis by (simp add: lossless_def) (simp add: sample_def)
qed

lemma lossless_config_as_account: "lossless config_as_account"
proof -
  have ok: "config_ok sample a" if "decoded_Account config_as_account a" for a
    using that
  proof induction
    case (fresh j a)
    then have "dec_struct (InstanceConfig_field sample) j InstanceConfig_zero = Inr a"
      by (simp add: config_as_account_def)
    from dec_InstanceConfig_ok [OF lossless_sample config_zero_ok this] show ?case .
  next
    case (again a0 j a)
    then have "dec_struct (InstanceConfig_field sample) j a0 = Inr a"
      by (simp add: config_as_account_def)
    from dec_InstanceConfig_ok [OF lossless_sample again.IH this] show ?case .
  qed
  have "enc_Account config_as_account a \<noteq> JNull
        \<and> dec_Account config_as_account (enc_Account config_as_account a)
            (Account_zero config_as_account) = Inr a"
    if "decoded_Account config_as_account a" for a
    using InstanceConfig_round_trip [OF ok [OF that]]
    by (simp add: config_as_account_def enc_InstanceConfig_def)
  then show ?thesis by (simp add: lossless_def) (simp add: config_as_account_def)
qed

section \<open>The claims of the specification\<close>

text \<open>
  Claim C1. For each of the four methods: when the API caller returns an error, the method
  returns that very error and a \<^verbatim>\<open>nil\<close> result, and the state of the outside is the one
  the single call left: nothing is retried or recovered.
\<close>

theorem C1_error_returned_unchanged:
  "(doAPI1 c ctx MethodGet ''/api/v1/instance'' None Instance_zero None w = ((Some e, d1), w')
      \<longrightarrow> GetInstance doAPI1 c ctx w = ((None, Some e), w'))
   \<and> (doAPI2 c ctx MethodGet ''/api/v2/instance'' None InstanceV2_zero None w = ((Some e, d2), w')
      \<longrightarrow> GetInstanceV2 doAPI2 c ctx w = ((None, Some e), w'))
   \<and> (doAPI3 c ctx MethodGet ''/api/v1/instance/activity'' None None None w = ((Some e, d3), w')
      \<longrightarrow> GetInstanceActivity doAPI3 c ctx w = ((None, Some e), w'))
   \<and> (doAPI4 c ctx MethodGet ''/api/v1/instance/peers'' None None None w = ((Some e, d4), w')
      \<longrightarrow> GetInstancePeers doAPI4 c ctx w = ((None, Some e), w'))"
  by (simp add: GetInstance_def GetInstanceV2_def GetInstanceActivity_def GetInstancePeers_def)

text \<open>The first request of each test of instance_test.go: the server answers 500.\<close>

theorem C1_witness:
  "doAPI_spec (test_server JNull) (dec_Instance sample) () () MethodGet ''/api/v1/instance''
       (None :: unit option) Instance_zero (None :: unit option) True
     = ((Some (StatusError 500), Instance_zero), False)
   \<and> GetInstance (doAPI_spec (test_server JNull) (dec_Instance sample)
         :: (unit, unit, unit, unit, (Account_sample, json) Instance, error, bool) doAPI) () () True
     = ((None, Some (StatusError 500)), False)
   \<and> GetInstanceV2 (doAPI_spec (test_server JNull) (dec_InstanceV2 sample)
         :: (unit, unit, unit, unit, (Account_sample, json) InstanceV2, error, bool) doAPI) () () True
     = ((None, Some (StatusError 500)), False)
   \<and> GetInstanceActivity (doAPI_spec (test_server JNull) dec_activity
         :: (unit, unit, unit, unit, WeeklyActivity ptr slice, error, bool) doAPI) () () True
     = ((None, Some (StatusError 500)), False)
   \<and> GetInstancePeers (doAPI_spec (test_server JNull) dec_peers
         :: (unit, unit, unit, unit, string slice, error, bool) doAPI) () () True
     = ((None, Some (StatusError 500)), False)"
  using C1_error_returned_unchanged
    [of "doAPI_spec (test_server JNull) (dec_Instance sample)" "()" "()" True "StatusError 500"
        Instance_zero False
        "doAPI_spec (test_server JNull) (dec_InstanceV2 sample)" InstanceV2_zero
        "doAPI_spec (test_server JNull) dec_activity" None
        "doAPI_spec (test_server JNull) dec_peers" None]
  by (simp add: doAPI_spec_test_server_first)

text \<open>
  Claim C2. When the API caller succeeds, \<^verbatim>\<open>GetInstance\<close> and \<^verbatim>\<open>GetInstanceV2\<close> return
  no error and a pointer, not \<^verbatim>\<open>nil\<close>, to the record the API caller left in the
  destination, unchanged.
\<close>

theorem C2_result_is_decoded_record:
  "(doAPI1 c ctx MethodGet ''/api/v1/instance'' None Instance_zero None w = ((None, d1), w')
      \<longrightarrow> GetInstance doAPI1 c ctx w = ((Some d1, None), w'))
   \<and> (doAPI2 c ctx MethodGet ''/api/v2/instance'' None InstanceV2_zero None w = ((None, d2), w')
      \<longrightarrow> GetInstanceV2 doAPI2 c ctx w = ((Some d2, None), w'))"
  by (simp add: GetInstance_def GetInstanceV2_def)

text \<open>The second request of \<^verbatim>\<open>TestGetInstance\<close> and of \<^verbatim>\<open>TestGetInstanceV2\<close>.\<close>

theorem C2_witness:
  "doAPI_spec (test_server body_TestGetInstance) (dec_Instance sample) () () MethodGet
       ''/api/v1/instance'' (None :: unit option) Instance_zero (None :: unit option) False
     = ((None, instance_TestGetInstance), False)
   \<and> GetInstance (doAPI_spec (test_server body_TestGetInstance) (dec_Instance sample)
         :: (unit, unit, unit, unit, (Account_sample, json) Instance, error, bool) doAPI)
       () () False
     = ((Some instance_TestGetInstance, None), False)
   \<and> doAPI_spec (test_server body_TestGetInstanceV2) (dec_InstanceV2 sample) () () MethodGet
       ''/api/v2/instance'' (None :: unit option) InstanceV2_zero (None :: unit option) False
     = ((None, instance_TestGetInstanceV2), False)
   \<and> GetInstanceV2 (doAPI_spec (test_server body_TestGetInstanceV2) (dec_InstanceV2 sample)
         :: (unit, unit, unit, unit, (Account_sample, json) InstanceV2, error, bool) doAPI)
       () () False
     = ((Some instance_TestGetInstanceV2, None), False)"
  using C2_result_is_decoded_record
    [of "doAPI_spec (test_server body_TestGetInstance) (dec_Instance sample)" "()" "()" False
        instance_TestGetInstance False
        "doAPI_spec (test_server body_TestGetInstanceV2) (dec_InstanceV2 sample)"
        instance_TestGetInstanceV2]
  by (simp add: doAPI_spec_test_server_later dec_body_TestGetInstance dec_body_TestGetInstanceV2)

text \<open>
  Claim C3. Every call of each of the four methods calls the API caller exactly once, with
  the method GET, no request parameters, no pagination and the path of the method: the log
  of the calls grows by that one entry, whatever the API caller answers.
\<close>

theorem C3_one_GET_per_call:
  "snd (snd (GetInstance (recording doAPI1) c ctx (w, log)))
     = log @ [(''GET'', ''/api/v1/instance'', None, None)]
   \<and> snd (snd (GetInstanceV2 (recording doAPI2) c ctx (w, log)))
     = log @ [(''GET'', ''/api/v2/instance'', None, None)]
   \<and> snd (snd (GetInstanceActivity (recording doAPI3) c ctx (w, log)))
     = log @ [(''GET'', ''/api/v1/instance/activity'', None, None)]
   \<and> snd (snd (GetInstancePeers (recording doAPI4) c ctx (w, log)))
     = log @ [(''GET'', ''/api/v1/instance/peers'', None, None)]"
  by (simp add: GetInstance_def GetInstanceV2_def GetInstanceActivity_def GetInstancePeers_def
        recording_def MethodGet_def split: prod.split)

text \<open>
  Claim C4. For every Instance record, also one whose configuration is \<^verbatim>\<open>nil\<close>,
  \<^verbatim>\<open>GetConfig\<close> returns the field \<^verbatim>\<open>Configuration\<close> as it is and does not fail.
\<close>

theorem C4_GetConfig_projection:
  "GetConfig (Some i) = Inr (Instance.Configuration i)
   \<and> GetConfig (Some (i\<lparr>Instance.Configuration := None\<rparr>)) = Inr None"
  by (simp add: GetConfig_def)

text \<open>
  Claim C5 (with the API caller modelled from the specification).
  \<^verbatim>\<open>GetInstancePeers\<close> and \<^verbatim>\<open>GetInstanceActivity\<close> return as many elements as the JSON
  array of the body has, and the element at each position is the decoding of the array's
  element at that position: the order of the body is kept. An array of strings comes back
  as these strings, and the body \<^verbatim>\<open>["mastodon.social","mstdn.jp"]\<close> as the two names in
  that order.
\<close>

theorem C5_order_preserved:
  "(http1 c ctx MethodGet ''/api/v1/instance/peers'' None w1
        = (Reply st1 (Some (JArray js1)), w1')
      \<and> 200 \<le> st1 \<and> st1 < 300
      \<and> GetInstancePeers
            (doAPI_spec http1 dec_peers :: ('c, 'x, 'p, 'g, string slice, error, 'w) doAPI)
            c ctx w1
          = ((peers, None), w1'')
    \<longrightarrow> (\<exists>xs. peers = Some xs \<and> length xs = length js1
           \<and> (\<forall>i<length js1. dec_string (js1 ! i) [] = Inr (xs ! i))))
   \<and> (http2 c ctx MethodGet ''/api/v1/instance/activity'' None w2
        = (Reply st2 (Some (JArray js2)), w2')
      \<and> 200 \<le> st2 \<and> st2 < 300
      \<and> GetInstanceActivity
            (doAPI_spec http2 dec_activity
               :: ('c, 'x, 'p, 'g, WeeklyActivity ptr slice, error, 'w) doAPI)
            c ctx w2
          = ((activity, None), w2'')
    \<longrightarrow> (\<exists>xs. activity = Some xs \<and> length xs = length js2
           \<and> (\<forall>i<length js2.
                 dec_ptr dec_WeeklyActivity WeeklyActivity_zero (js2 ! i) None = Inr (xs ! i))))
   \<and> (http3 c ctx MethodGet ''/api/v1/instance/peers'' None w3
        = (Reply st3 (Some (JArray (map JString ps))), w3')
      \<and> 200 \<le> st3 \<and> st3 < 300
    \<longrightarrow> GetInstancePeers
          (doAPI_spec http3 dec_peers :: ('c, 'x, 'p, 'g, string slice, error, 'w) doAPI)
          c ctx w3
        = ((Some ps, None), w3'))
   \<and> GetInstancePeers (doAPI_spec (test_server body_TestGetInstancePeers) dec_peers) c ctx False
       = ((Some [''mastodon.social'', ''mstdn.jp''], None), False)"
proof (intro conjI impI)
  assume "http1 c ctx MethodGet ''/api/v1/instance/peers'' None w1
        = (Reply st1 (Some (JArray js1)), w1')
      \<and> 200 \<le> st1 \<and> st1 < 300
      \<and> GetInstancePeers (doAPI_spec http1 dec_peers) c ctx w1 = ((peers, None), w1'')"
  then obtain xs where "dec_elems dec_string [] [] js1 = Inr xs" and "peers = Some xs"
    by (auto simp: GetInstancePeers_spec dec_peers_def dec_slice_def store_def
          split: sum.splits)
  with dec_elems_nth [of dec_string "[]" js1 xs]
  show "\<exists>xs. peers = Some xs \<and> length xs = length js1
           \<and> (\<forall>i<length js1. dec_string (js1 ! i) [] = Inr (xs ! i))" by blast
next
  assume "http2 c ctx MethodGet ''/api/v1/instance/activity'' None w2
        = (Reply st2 (Some (JArray js2)), w2')
      \<and> 200 \<le> st2 \<and> st2 < 300
      \<and> GetInstanceActivity (doAPI_spec http2 dec_activity) c ctx w2 = ((activity, None), w2'')"
  then obtain xs
    where "dec_elems (dec_ptr dec_WeeklyActivity WeeklyActivity_zero) None [] js2 = Inr xs"
      and "activity = Some xs"
    by (auto simp: GetInstanceActivity_spec dec_activity_def dec_slice_def store_def
          split: sum.splits)
  with dec_elems_nth [of "dec_ptr dec_WeeklyActivity WeeklyActivity_zero" None js2 xs]
  show "\<exists>xs. activity = Some xs \<and> length xs = length js2
           \<and> (\<forall>i<length js2.
                 dec_ptr dec_WeeklyActivity WeeklyActivity_zero (js2 ! i) None = Inr (xs ! i))"
    by blast
next
  assume "http3 c ctx MethodGet ''/api/v1/instance/peers'' None w3
        = (Reply st3 (Some (JArray (map JString ps))), w3')
      \<and> 200 \<le> st3 \<and> st3 < 300"
  then show "GetInstancePeers (doAPI_spec http3 dec_peers) c ctx w3 = ((Some ps, None), w3')"
    by (simp add: GetInstancePeers_spec dec_peers_def dec_slice_def dec_elems_strings store_def)
next
  show "GetInstancePeers (doAPI_spec (test_server body_TestGetInstancePeers) dec_peers) c ctx False
       = ((Some [''mastodon.social'', ''mstdn.jp''], None), False)"
    by (simp add: GetInstancePeers_def doAPI_spec_test_server_later body_TestGetInstancePeers_def
          dec_peers_def dec_slice_def dec_string_def store_def)
qed

text \<open>The second requests of \<^verbatim>\<open>TestGetInstancePeers\<close> and \<^verbatim>\<open>TestGetInstanceActivity\<close>.\<close>

theorem C5_witness:
  "test_server body_TestGetInstancePeers () () MethodGet ''/api/v1/instance/peers''
       (None :: unit option) False
     = (Reply 200 (Some (JArray (map JString [''mastodon.social'', ''mstdn.jp'']))), False)
   \<and> GetInstancePeers (doAPI_spec (test_server body_TestGetInstancePeers) dec_peers
         :: (unit, unit, unit, unit, string slice, error, bool) doAPI) () () False
     = ((Some [''mastodon.social'', ''mstdn.jp''], None), False)
   \<and> dec_string (JString ''mstdn.jp'') [] = Inr ([''mastodon.social'', ''mstdn.jp''] ! 1)
   \<and> test_server body_TestGetInstanceActivity () () MethodGet ''/api/v1/instance/activity''
       (None :: unit option) False
     = (Reply 200
          (Some (JArray [JObject [(''week'', JString ''1516579200''), (''statuses'', JString ''1''),
                                  (''logins'', JString ''1''), (''registrations'', JString ''0'')]])),
        False)
   \<and> GetInstanceActivity (doAPI_spec (test_server body_TestGetInstanceActivity) dec_activity
         :: (unit, unit, unit, unit, WeeklyActivity ptr slice, error, bool) doAPI) () () False
     = ((Some [Some \<lparr>Week = Unix 1516579200, WeeklyActivity.Statuses = 1, Logins = 1,
                      WeeklyActivity.Registrations = 0\<rparr>], None), False)"
  using C5_order_preserved
    [where ?'g = unit and ?'p = unit, of "test_server body_TestGetInstancePeers" "()" "()" False 200
        "[JString ''mastodon.social'', JString ''mstdn.jp'']" False
        "Some [''mastodon.social'', ''mstdn.jp'']" False
        "test_server body_TestGetInstanceActivity" False 200
        "[JObject [(''week'', JString ''1516579200''), (''statuses'', JString ''1''),
                   (''logins'', JString ''1''), (''registrations'', JString ''0'')]]" False
        "Some [Some \<lparr>Week = Unix 1516579200, WeeklyActivity.Statuses = 1, Logins = 1,
                      WeeklyActivity.Registrations = 0\<rparr>]" False
        "test_server body_TestGetInstancePeers" False 200 "[''mastodon.social'', ''mstdn.jp'']"
        False]
  by (simp add: test_server_def body_TestGetInstancePeers_def body_TestGetInstanceActivity_def
        GetInstanceActivity_def doAPI_spec_def dec_activity_def dec_WeeklyActivity_def
        WeeklyActivity_field_def WeeklyActivity_zero_def Date_def days_from_civil_def
        scalar_defs shape_defs)
     (elim conjE, assumption)





text \<open>
  Claim C8 says that encoding a decoded Instance and decoding the result gives the same
  record. It fails for the body \<^verbatim>\<open>{"urls":{}}\<close>: the record holds an empty map that is
  not \<^verbatim>\<open>nil\<close>, the tag \<^verbatim>\<open>omitempty\<close> leaves the empty map out of the encoding, and
  decoding the encoding leaves the map \<^verbatim>\<open>nil\<close>.
\<close>

theorem C8_empty_urls_counterexample:
  "dec_Instance sample (JObject [(''urls'', JObject [])]) Instance_zero
     = Inr (Instance_zero\<lparr>URLs := Some fmempty\<rparr>)
   \<and> dec_Instance sample (enc_Instance sample (Instance_zero\<lparr>URLs := Some fmempty\<rparr>))
       Instance_zero
     = Inr Instance_zero
   \<and> (Instance_zero :: (Account_sample, json) Instance)
       \<noteq> Instance_zero\<lparr>URLs := Some fmempty\<rparr>"
  by (simp add: dec_Instance_def dec_struct_def enc_Instance_def Instance_field_steps
        Instance_zero_def store_def dec_string_def dec_map_def dec_slice_def dec_ptr_def
        enc_slice_def enc_ptr_def)

text \<open>
  Claim C8, amended. When the accounts and the dynamic values that a decoding produces
  survive their own round trip, encoding an Instance obtained by decoding a body and
  decoding the result gives the same record, except that an empty map of URLs comes back
  as the \<^verbatim>\<open>nil\<close> map; when the map of URLs is \<^verbatim>\<open>nil\<close> or has an entry, the record
  comes back as it was.
\<close>

theorem C8_round_trip_up_to_empty_urls:
  "lossless P \<and> dec_Instance P j Instance_zero = Inr i
   \<longrightarrow> dec_Instance P (enc_Instance P i) Instance_zero
         = Inr (i\<lparr>URLs := (if URLs i = Some fmempty then None else URLs i)\<rparr>)
       \<and> (URLs i \<noteq> Some fmempty \<longrightarrow> dec_Instance P (enc_Instance P i) Instance_zero = Inr i)"
proof (intro impI)
  assume a: "lossless P \<and> dec_Instance P j Instance_zero = Inr i"
  then have "instance_ok P i" by (blast intro: decoded_Instance_ok)
  with a have "dec_Instance P (enc_Instance P i) Instance_zero
         = Inr (i\<lparr>URLs := (if URLs i = Some fmempty then None else URLs i)\<rparr>)"
    by (blast intro: Instance_round_trip)
  then show "dec_Instance P (enc_Instance P i) Instance_zero
         = Inr (i\<lparr>URLs := (if URLs i = Some fmempty then None else URLs i)\<rparr>)
       \<and> (URLs i \<noteq> Some fmempty \<longrightarrow> dec_Instance P (enc_Instance P i) Instance_zero = Inr i)"
    by simp
qed

text \<open>The record of \<^verbatim>\<open>TestGetInstance\<close>, with a contact account, and the record of
  \<^verbatim>\<open>TestGetInstanceMore\<close>, with URLs, statistics and a configuration.\<close>

theorem C8_witness:
  "lossless sample
   \<and> dec_Instance sample body_TestGetInstance Instance_zero = Inr instance_TestGetInstance
   \<and> ContactAccount instance_TestGetInstance = Some \<lparr>Username = ''mattn''\<rparr>
   \<and> URLs instance_TestGetInstance \<noteq> Some fmempty
   \<and> dec_Instance sample (enc_Instance sample instance_TestGetInstance) Instance_zero
       = Inr instance_TestGetInstance
   \<and> dec_Instance sample body_TestGetInstanceMore Instance_zero = Inr instance_TestGetInstanceMore
   \<and> URLs instance_TestGetInstanceMore \<noteq> Some fmempty
   \<and> dec_Instance sample (enc_Instance sample instance_TestGetInstanceMore) Instance_zero
       = Inr instance_TestGetInstanceMore"
proof -
  have "fmlookup (fmupd ''bar'' ''http://stream2.example.com''
                    (fmupd ''foo'' ''http://stream1.example.com'' fmempty)) ''bar''
          \<noteq> fmlookup (fmempty :: (string, string) fmap) ''bar''"
    by simp
  then have u: "URLs instance_TestGetInstanceMore \<noteq> Some fmempty"
    by (auto simp: instance_TestGetInstanceMore_def)
  have c: "ContactAccount instance_TestGetInstance = Some \<lparr>Username = ''mattn''\<rparr>"
    and n: "URLs instance_TestGetInstance \<noteq> Some fmempty"
    by (simp_all add: instance_TestGetInstance_def)
  from C8_round_trip_up_to_empty_urls
         [of sample body_TestGetInstance instance_TestGetInstance]
       C8_round_trip_up_to_empty_urls
         [of sample body_TestGetInstanceMore instance_TestGetInstanceMore]
       lossless_sample dec_body_TestGetInstance dec_body_TestGetInstanceMore u c n
  show ?thesis by simp
qed




text \<open>
  Claim C10 (with the API caller modelled from the specification). On a body that is the
  empty array, \<^verbatim>\<open>GetInstancePeers\<close> and \<^verbatim>\<open>GetInstanceActivity\<close> return an empty slice
  and no error; on the body \<^verbatim>\<open>null\<close> they return the \<^verbatim>\<open>nil\<close> slice and no error. In
  both cases the length is zero and indexing the result at 0 panics.
\<close>

theorem C10_empty_results:
  "(http c ctx MethodGet ''/api/v1/instance/peers'' None w = (Reply st (Some body), w')
      \<and> 200 \<le> st \<and> st < 300 \<and> (body = JArray [] \<or> body = JNull)
    \<longrightarrow> (\<exists>peers.
           GetInstancePeers
             (doAPI_spec http dec_peers :: ('c, 'x, 'p, 'g, string slice, error, 'w) doAPI)
             c ctx w
           = ((peers, None), w')
           \<and> peers = (if body = JNull then None else Some [])
           \<and> len peers = 0 \<and> index peers 0 = Inl IndexOutOfRange))
   \<and> (http c ctx MethodGet ''/api/v1/instance/activity'' None w = (Reply st (Some body), w')
      \<and> 200 \<le> st \<and> st < 300 \<and> (body = JArray [] \<or> body = JNull)
    \<longrightarrow> (\<exists>activity.
           GetInstanceActivity
             (doAPI_spec http dec_activity
                :: ('c, 'x, 'p, 'g, WeeklyActivity ptr slice, error, 'w) doAPI)
             c ctx w
           = ((activity, None), w')
           \<and> activity = (if body = JNull then None else Some [])
           \<and> len activity = 0 \<and> index activity 0 = Inl IndexOutOfRange))"
  by (auto simp: GetInstancePeers_spec GetInstanceActivity_spec dec_peers_def
        dec_activity_def dec_slice_def store_def len_def index_def)

text \<open>The test server answering with the empty array and with \<^verbatim>\<open>null\<close>.\<close>

theorem C10_witness:
  "test_server (JArray []) () () MethodGet ''/api/v1/instance/peers'' (None :: unit option) False
     = (Reply 200 (Some (JArray [])), False)
   \<and> GetInstancePeers (doAPI_spec (test_server (JArray [])) dec_peers
         :: (unit, unit, unit, unit, string slice, error, bool) doAPI) () () False
     = ((Some [], None), False)
   \<and> GetInstanceActivity (doAPI_spec (test_server (JArray [])) dec_activity
         :: (unit, unit, unit, unit, WeeklyActivity ptr slice, error, bool) doAPI) () () False
     = ((Some [], None), False)
   \<and> test_server JNull () () MethodGet ''/api/v1/instance/peers'' (None :: unit option) False
     = (Reply 200 (Some JNull), False)
   \<and> GetInstancePeers (doAPI_spec (test_server JNull) dec_peers
         :: (unit, unit, unit, unit, string slice, error, bool) doAPI) () () False
     = ((None, None), False)
   \<and> GetInstanceActivity (doAPI_spec (test_server JNull) dec_activity
         :: (unit, unit, unit, unit, WeeklyActivity ptr slice, error, bool) doAPI) () () False
     = ((None, None), False)"
  using C10_empty_results
      [where ?'g = unit and ?'p = unit, of "test_server (JArray [])" "()" "()" False 200 "JArray []" False]
    C10_empty_results
      [where ?'g = unit and ?'p = unit, of "test_server JNull" "()" "()" False 200 JNull False]
  by (simp add: test_server_def)

end
